theory Spec2Isabelle
  imports Main
begin

section \<open>Project configuration validity (checkDataformJsonValidity)\<close>

text \<open>
  The parsed project configuration is a JavaScript object read as a mapping from
  property names to values. The properties that the check inspects are declared
  as strings in \<open>dataform.IProjectConfig\<close>, so values are strings here.
  \<open>prop in obj\<close> is \<open>obj prop \<noteq> None\<close>; a string is truthy when it is not empty.
\<close>

type_synonym projectConfig = "string \<rightharpoonup> string"

datatype js_error =
    Error string
  | CompilationTimeoutError string
  | ErrorWithCause string js_error

fun message :: "js_error \<Rightarrow> string" where
  "message (Error m) = m"
| "message (CompilationTimeoutError m) = m"
| "message (ErrorWithCause m c) = m"

text \<open>Project config properties that are required.\<close>

definition mandatoryProps :: "string list" where
  "mandatoryProps = [''warehouse'', ''defaultSchema'']"

text \<open>Project config properties that require alphanumeric characters, hyphens or underscores.\<close>

definition simpleCheckProps :: "string list" where
  "simpleCheckProps =
     [''assertionSchema'', ''databaseSuffix'', ''schemaSuffix'', ''tablePrefix'', ''defaultSchema'']"

text \<open>One character of the class \<open>[a-zA-Z_0-9\-]\<close>, by character code.\<close>

definition simpleChar :: "char \<Rightarrow> bool" where
  "simpleChar c =
     (let n = (of_char c :: nat)
      in (97 \<le> n \<and> n \<le> 122) \<or> (65 \<le> n \<and> n \<le> 90) \<or> n = 95 \<or> (48 \<le> n \<and> n \<le> 57) \<or> n = 45)"

text \<open>\<open>/^[a-zA-Z_0-9\-]*$/.test(s)\<close>: every character of \<open>s\<close> is in the class.\<close>

definition simplePattern :: "string \<Rightarrow> bool" where
  "simplePattern s = list_all simpleChar s"

text \<open>\<open>xs.join(sep)\<close>.\<close>

fun join :: "string \<Rightarrow> string list \<Rightarrow> string" where
  "join sep [] = []"
| "join sep [x] = x"
| "join sep (x # y # ys) = x @ sep @ join sep (y # ys)"

text \<open>
  The three inner functions of \<open>checkDataformJsonValidity\<close>; \<open>None\<close> is the
  \<open>null\<close> they return when their rule is not violated. The allow-list
  \<open>validWarehouses\<close> is imported from \<open>df/api/dbadapters\<close> and is a parameter.
\<close>

definition invalidWarehouseProp :: "string list \<Rightarrow> projectConfig \<Rightarrow> string option" where
  "invalidWarehouseProp validWarehouses dataformJsonParsed =
     (case dataformJsonParsed ''warehouse'' of
        None \<Rightarrow> None
      | Some w \<Rightarrow>
          if w \<noteq> [] \<and> w \<notin> set validWarehouses
          then Some (''Invalid value on property warehouse: '' @ w @ ''. Should be one of: ''
                     @ join '', '' validWarehouses @ ''.'')
          else None)"

definition invalidProp :: "projectConfig \<Rightarrow> string option" where
  "invalidProp dataformJsonParsed =
     (case List.find
             (\<lambda>prop. case dataformJsonParsed prop of
                        None \<Rightarrow> False
                      | Some v \<Rightarrow> \<not> simplePattern v)
             simpleCheckProps of
        None \<Rightarrow> None
      | Some invProp \<Rightarrow>
          Some (''Invalid value on property '' @ invProp @ '': ''
                @ (case dataformJsonParsed invProp of None \<Rightarrow> ''undefined'' | Some v \<Rightarrow> v)
                @ ''. Should only contain alphanumeric characters, underscores and/or hyphens.''))"

definition missingMandatoryProp :: "projectConfig \<Rightarrow> string option" where
  "missingMandatoryProp dataformJsonParsed =
     (case List.find (\<lambda>prop. dataformJsonParsed prop = None) mandatoryProps of
        None \<Rightarrow> None
      | Some missMandatoryProp \<Rightarrow> Some (''Missing mandatory property: '' @ missMandatoryProp @ ''.''))"

text \<open>\<open>a || b\<close> on \<open>string | null\<close> operands: the first operand unless it is falsy.\<close>

definition orElse :: "string option \<Rightarrow> string option \<Rightarrow> string option" where
  "orElse a b = (case a of None \<Rightarrow> b | Some m \<Rightarrow> if m = [] then b else Some m)"

text \<open>\<open>Inl e\<close>: the function throws \<open>e\<close>; \<open>Inr ()\<close>: it returns normally.\<close>

definition checkDataformJsonValidity :: "string list \<Rightarrow> projectConfig \<Rightarrow> js_error + unit" where
  "checkDataformJsonValidity validWarehouses dataformJsonParsed =
     (case orElse (invalidWarehouseProp validWarehouses dataformJsonParsed)
             (orElse (invalidProp dataformJsonParsed) (missingMandatoryProp dataformJsonParsed)) of
        None \<Rightarrow> Inr ()
      | Some m \<Rightarrow> if m = [] then Inr () else Inl (Error m))"

section \<open>The worker process protocol (CompileChildProcess.compile)\<close>

text \<open>
  A promise is pending or settled; \<open>resolve\<close> and \<open>reject\<close> settle a pending
  promise and do nothing to a settled one.
\<close>

datatype 'a promise = Pending | Fulfilled 'a | Rejected js_error

definition resolve :: "'a \<Rightarrow> 'a promise \<Rightarrow> 'a promise" where
  "resolve v p = (case p of Pending \<Rightarrow> Fulfilled v | _ \<Rightarrow> p)"

definition reject :: "js_error \<Rightarrow> 'a promise \<Rightarrow> 'a promise" where
  "reject e p = (case p of Pending \<Rightarrow> Rejected e | _ \<Rightarrow> p)"

text \<open>
  What awaiting a promise gives: its value, its rejection reason thrown, or no
  return at all when the promise never settles.
\<close>

datatype 'a outcome = Returns 'a | Throws js_error | Hangs

definition awaitPromise :: "'a promise \<Rightarrow> 'a outcome" where
  "awaitPromise p = (case p of Fulfilled v \<Rightarrow> Returns v | Rejected e \<Rightarrow> Throws e | Pending \<Rightarrow> Hangs)"

text \<open>
  The events of the child process that the call listens to: \<open>error\<close> carries an
  \<open>Error\<close>; \<open>message\<close> carries \<open>string | Error\<close>, a string being the encoded
  result; \<open>close\<close> carries the exit code, which is \<open>null\<close> (\<open>None\<close>) for a
  process ended by a signal.
\<close>

datatype ipc_message = StringMessage string | ErrorMessage js_error

datatype signal = ErrorEvent js_error | MessageEvent ipc_message | CloseEvent "int option"

text \<open>
  The child process as the call sees it: its \<open>killed\<close> property, and whether the
  operating-system process is still running.
\<close>

record ChildProcess =
  killed :: bool
  running :: bool

datatype timer_handle = Armed | Fired | Cleared

record call_state =
  childProcess :: ChildProcess
  compileInChildProcess :: "string promise"
  timeout :: "string promise"
  raced :: "string promise"
  timer :: "timer_handle option"

text \<open>The request passed to \<open>compile\<close> (\<open>dataform.ICompileConfig\<close>).\<close>

record ICompileConfig =
  projectDir :: "string option"
  schemaSuffixOverride :: "string option"
  projectConfigOverride :: "projectConfig option"
  timeoutMillis :: "int option"
  useMain :: bool

text \<open>\<open>`${exitCode}`\<close>: the decimal numeral of a number, \<open>null\<close> for \<open>null\<close>.\<close>

fun digitsOf :: "nat \<Rightarrow> string" where
  "digitsOf n =
     (if n < 10 then [''0123456789'' ! n]
      else digitsOf (n div 10) @ [''0123456789'' ! (n mod 10)])"

declare digitsOf.simps [simp del]

definition stringOfExitCode :: "int option \<Rightarrow> string" where
  "stringOfExitCode exitCode =
     (case exitCode of
        None \<Rightarrow> ''null''
      | Some n \<Rightarrow> if n < 0 then ''-'' @ digitsOf (nat (- n)) else digitsOf (nat n))"

text \<open>
  The listeners registered by the executor of \<open>compileInChildProcess\<close>, and the
  callback of the timer. \<open>coerceAsError\<close> is imported from
  \<open>df/common/errors/errors\<close> and is a parameter.
\<close>

definition onError :: "(js_error \<Rightarrow> js_error) \<Rightarrow> js_error \<Rightarrow> call_state \<Rightarrow> call_state" where
  "onError coerceAsError e s =
     s\<lparr>compileInChildProcess := reject (coerceAsError e) (compileInChildProcess s)\<rparr>"

definition onMessage :: "(js_error \<Rightarrow> js_error) \<Rightarrow> ipc_message \<Rightarrow> call_state \<Rightarrow> call_state" where
  "onMessage coerceAsError messageOrError s =
     (case messageOrError of
        StringMessage m \<Rightarrow> s\<lparr>compileInChildProcess := resolve m (compileInChildProcess s)\<rparr>
      | ErrorMessage e \<Rightarrow>
          s\<lparr>compileInChildProcess := reject (coerceAsError e) (compileInChildProcess s)\<rparr>)"

definition onClose :: "int option \<Rightarrow> call_state \<Rightarrow> call_state" where
  "onClose exitCode s =
     (if exitCode \<noteq> Some 0
      then s\<lparr>compileInChildProcess :=
               reject (Error (''Compilation child process exited with exit code ''
                              @ stringOfExitCode exitCode @ ''.''))
                 (compileInChildProcess s)\<rparr>
      else s)"

definition onTimeout :: "call_state \<Rightarrow> call_state" where
  "onTimeout s =
     s\<lparr>timeout := reject (CompilationTimeoutError ''Compilation timed out'') (timeout s)\<rparr>"

text \<open>
  \<open>Promise.race([timeout, compileInChildProcess])\<close>: once one of the two is
  settled the race promise takes its settlement, and keeps it.
\<close>

definition settleRace :: "call_state \<Rightarrow> call_state" where
  "settleRace s =
     (if raced s = Pending
      then s\<lparr>raced := (case timeout s of Pending \<Rightarrow> compileInChildProcess s | p \<Rightarrow> p)\<rparr>
      else s)"

text \<open>
  One turn of the event loop. A signal of the child runs its listener; a
  \<open>close\<close> event is emitted once the process has ended. The timer runs its
  callback only while it is armed. The promise reactions run after each turn.
\<close>

fun deliver :: "(js_error \<Rightarrow> js_error) \<Rightarrow> signal \<Rightarrow> call_state \<Rightarrow> call_state" where
  "deliver coerceAsError (ErrorEvent e) s = settleRace (onError coerceAsError e s)"
| "deliver coerceAsError (MessageEvent m) s = settleRace (onMessage coerceAsError m s)"
| "deliver coerceAsError (CloseEvent exitCode) s =
     settleRace (onClose exitCode (s\<lparr>childProcess := (childProcess s)\<lparr>running := False\<rparr>\<rparr>))"

definition timerFires :: "call_state \<Rightarrow> call_state" where
  "timerFires s =
     (if timer s = Some Armed then settleRace (onTimeout (s\<lparr>timer := Some Fired\<rparr>)) else s)"

text \<open>
  \<open>setTimeout(callback, delay)\<close>: the number of milliseconds after which the
  timer is due. Node sets a delay that is larger than 2147483647 or less than 1
  to 1.
\<close>

definition setTimeoutDelay :: "int \<Rightarrow> int" where
  "setTimeoutDelay delay = (if delay < 1 \<or> 2147483647 < delay then 1 else delay)"

text \<open>
  \<open>await Promise.race(...)\<close>. The signals of the child come with their arrival
  time, the whole milliseconds elapsed since the call, in order of arrival; \<open>delay\<close> is the
  delay that was passed to \<open>setTimeout\<close>, and a signal is delivered before the
  timer exactly when it arrives earlier than the timer is due. The loop runs
  until the race promise is settled; when no event is left it stops with the
  promise pending.
\<close>

fun awaitRace ::
  "(js_error \<Rightarrow> js_error) \<Rightarrow> int \<Rightarrow> (nat \<times> signal) list \<Rightarrow> call_state \<Rightarrow> call_state" where
  "awaitRace coerceAsError delay [] s = timerFires s"
| "awaitRace coerceAsError delay ((t, sg) # rest) s =
     (if timer s = Some Armed \<and> setTimeoutDelay delay \<le> int t then timerFires s
      else (let s' = deliver coerceAsError sg s
            in if raced s' = Pending then awaitRace coerceAsError delay rest s' else s'))"

text \<open>\<open>compileConfig.timeoutMillis || 5000\<close>.\<close>

definition timerDelay :: "ICompileConfig \<Rightarrow> int" where
  "timerDelay compileConfig =
     (case timeoutMillis compileConfig of
        None \<Rightarrow> 5000
      | Some ms \<Rightarrow> if ms = 0 then 5000 else ms)"

text \<open>
  \<open>childProcess.kill("SIGKILL")\<close> ends a running process and sets \<open>killed\<close>; on a
  process that has ended it does nothing. \<open>clearTimeout\<close> cancels the timer.
\<close>

definition kill :: "ChildProcess \<Rightarrow> ChildProcess" where
  "kill cp = (if running cp then cp\<lparr>killed := True, running := False\<rparr> else cp)"

definition finallyBlock :: "call_state \<Rightarrow> call_state" where
  "finallyBlock s =
     (let s1 = (if \<not> killed (childProcess s) then s\<lparr>childProcess := kill (childProcess s)\<rparr> else s)
      in case timer s1 of None \<Rightarrow> s1 | Some h \<Rightarrow> s1\<lparr>timer := Some Cleared\<rparr>)"

text \<open>
  \<open>CompileChildProcess.compile\<close>: both promises are created (the executor of
  \<open>compileInChildProcess\<close> registers the three listeners and sends the request
  to the child, the executor of \<open>timeout\<close> arms the timer), the race is awaited,
  then \<open>compileInChildProcess\<close> is awaited, and the \<open>finally\<close> block runs when
  the \<open>try\<close> block is left. \<open>signals\<close> is what the child emits after the request
  was sent. The result is the outcome of the call with the state the call
  leaves behind.
\<close>

definition CompileChildProcess_compile ::
  "(js_error \<Rightarrow> js_error) \<Rightarrow> ChildProcess \<Rightarrow> ICompileConfig \<Rightarrow> (nat \<times> signal) list
     \<Rightarrow> string outcome \<times> call_state" where
  "CompileChildProcess_compile coerceAsError cp compileConfig signals =
     (let s0 = \<lparr>childProcess = cp, compileInChildProcess = Pending, timeout = Pending,
                raced = Pending, timer = Some Armed\<rparr>;
          s1 = awaitRace coerceAsError (timerDelay compileConfig) signals s0;
          result = (case awaitPromise (raced s1) of
                      Returns v \<Rightarrow> awaitPromise (compileInChildProcess s1)
                    | Throws e \<Rightarrow> Throws e
                    | Hangs \<Rightarrow> Hangs)
      in if result = Hangs then (Hangs, s1) else (result, finallyBlock s1))"

text \<open>Signals that arrive after the call has returned still run their listeners.\<close>

definition deliverLate :: "(js_error \<Rightarrow> js_error) \<Rightarrow> signal list \<Rightarrow> call_state \<Rightarrow> call_state" where
  "deliverLate coerceAsError sgs s = fold (deliver coerceAsError) sgs s"

section \<open>The entry point (compile)\<close>

text \<open>
  What the module imports and calls outside itself is a parameter of the model:
  \<open>path.resolve\<close>, \<open>fs.readFileSync\<close> with encoding utf8, \<open>JSON.parse\<close>,
  \<open>deepmerge\<close>, \<open>validWarehouses\<close>, \<open>coerceAsError\<close>, \<open>require.resolve\<close>, and
  the two decodings of the result (\<open>decode64\<close> of a \<open>CoreExecutionResult\<close> followed
  by \<open>CompiledGraph.create\<close>, and \<open>decode64\<close> of a \<open>CompiledGraph\<close>). \<open>Inl e\<close> is
  the error a call throws.
\<close>

record 'g environment =
  path_resolve :: "string option \<Rightarrow> js_error + string"
  readFileSync :: "string \<Rightarrow> js_error + string"
  JSON_parse :: "string \<Rightarrow> js_error + projectConfig"
  deepmerge :: "projectConfig \<Rightarrow> projectConfig \<Rightarrow> projectConfig"
  validWarehouses :: "string list"
  coerceAsError :: "js_error \<Rightarrow> js_error"
  require_resolve :: "string \<Rightarrow> js_error + string"
  decode64_CoreExecutionResult :: "string \<Rightarrow> js_error + 'g"
  decode64_CompiledGraph :: "string \<Rightarrow> js_error + 'g"

text \<open>
  The first statement after \<open>path.resolve\<close>: with a truthy \<open>schemaSuffixOverride\<close>
  the request gets a new \<open>projectConfigOverride\<close>, the object
  \<open>{schemaSuffix: schemaSuffixOverride, ...projectConfigOverride}\<close>, in which the
  properties spread last take precedence.
\<close>

definition setSchemaSuffix :: "ICompileConfig \<Rightarrow> ICompileConfig" where
  "setSchemaSuffix compileConfig =
     (case schemaSuffixOverride compileConfig of
        None \<Rightarrow> compileConfig
      | Some suffix \<Rightarrow>
          if suffix = [] then compileConfig
          else compileConfig\<lparr>projectConfigOverride :=
                 Some ([''schemaSuffix'' \<mapsto> suffix]
                       ++ (case projectConfigOverride compileConfig of
                             None \<Rightarrow> Map.empty
                           | Some override \<Rightarrow> override))\<rparr>)"

text \<open>The body of the \<open>try\<close> block of \<open>compile\<close>.\<close>

definition checkProjectConfig :: "'g environment \<Rightarrow> ICompileConfig \<Rightarrow> js_error + unit" where
  "checkProjectConfig env compileConfig =
     (case readFileSync env
             ((case projectDir compileConfig of None \<Rightarrow> ''undefined'' | Some dir \<Rightarrow> dir)
              @ ''/dataform.json'') of
        Inl e \<Rightarrow> Inl e
      | Inr dataformJson \<Rightarrow>
          (case JSON_parse env dataformJson of
             Inl e \<Rightarrow> Inl e
           | Inr projectConfig \<Rightarrow>
               checkDataformJsonValidity (validWarehouses env)
                 (deepmerge env projectConfig
                    (case projectConfigOverride compileConfig of
                       None \<Rightarrow> Map.empty
                     | Some override \<Rightarrow> override))))"

text \<open>\<open>CompileChildProcess.forkProcess\<close>: the forked process is new and running.\<close>

definition findForkScript :: "'g environment \<Rightarrow> js_error + string" where
  "findForkScript env =
     (case require_resolve env ''./worker_bundle'' of
        Inr workerBundlePath \<Rightarrow> Inr workerBundlePath
      | Inl e \<Rightarrow> require_resolve env ''../../sandbox/vm/compile_loader'')"

definition forkProcess :: "'g environment \<Rightarrow> js_error + ChildProcess" where
  "forkProcess env =
     (case findForkScript env of
        Inl e \<Rightarrow> Inl e
      | Inr forkScript \<Rightarrow>
          (case require_resolve env forkScript of
             Inl e \<Rightarrow> Inl e
           | Inr script \<Rightarrow> Inr \<lparr>killed = False, running = True\<rparr>))"

text \<open>
  The result of a call of \<open>compile\<close>: its outcome, the request object of the
  caller as the call leaves it, and the state of the worker stage when a
  process was forked.
\<close>

record 'g compile_result =
  outcome :: "'g outcome"
  request :: ICompileConfig
  worker :: "call_state option"

definition compile ::
  "'g environment \<Rightarrow> ICompileConfig \<Rightarrow> (nat \<times> signal) list \<Rightarrow> 'g compile_result" where
  "compile env compileConfig0 signals =
     (case path_resolve env (projectDir compileConfig0) of
        Inl e \<Rightarrow> \<lparr>outcome = Throws e, request = compileConfig0, worker = None\<rparr>
      | Inr resolved \<Rightarrow>
          (let compileConfig = setSchemaSuffix compileConfig0
           in case checkProjectConfig env compileConfig of
                Inl e \<Rightarrow>
                  \<lparr>outcome = Throws (ErrorWithCause
                       (''Compilation failed. ProjectConfig ('dataform.json') is invalid: ''
                        @ message e) e),
                   request = compileConfig, worker = None\<rparr>
              | Inr ok \<Rightarrow>
                  (case forkProcess env of
                     Inl e \<Rightarrow> \<lparr>outcome = Throws e, request = compileConfig, worker = None\<rparr>
                   | Inr cp \<Rightarrow>
                       (case CompileChildProcess_compile (coerceAsError env) cp compileConfig signals of
                          (result, s) \<Rightarrow>
                            \<lparr>outcome =
                               (case result of
                                  Returns r \<Rightarrow>
                                    (case (if useMain compileConfig
                                           then decode64_CoreExecutionResult env r
                                           else decode64_CompiledGraph env r) of
                                       Inl e \<Rightarrow> Throws e
                                     | Inr graph \<Rightarrow> Returns graph)
                                | Throws e \<Rightarrow> Throws e
                                | Hangs \<Rightarrow> Hangs),
                             request = compileConfig, worker = Some s\<rparr>))))"

text \<open>
  An environment and a request for the examples. The project file of
  \<open>/project\<close> parses to a valid configuration, the one of \<open>/broken\<close> does not
  parse, and no other file exists; \<open>deepmerge\<close> lets the override take
  precedence; errors are coerced to themselves and the result is decoded to
  itself.
\<close>

definition exampleEnvironment :: "string environment" where
  "exampleEnvironment =
     \<lparr>path_resolve =
        (\<lambda>dir. case dir of
                 None \<Rightarrow> Inl (Error ''The paths[0] argument must be of type string'')
               | Some d \<Rightarrow> Inr d),
      readFileSync =
        (\<lambda>file. if file = ''/project/dataform.json'' then Inr ''project file''
                else if file = ''/broken/dataform.json'' then Inr ''{''
                else Inl (Error ''ENOENT: no such file or directory'')),
      JSON_parse =
        (\<lambda>text. if text = ''{'' then Inl (Error ''Unexpected end of JSON input'')
                else Inr [''warehouse'' \<mapsto> ''bigquery'', ''defaultSchema'' \<mapsto> ''analytics'']),
      deepmerge = (\<lambda>x y. x ++ y),
      validWarehouses = [''bigquery'', ''postgres''],
      coerceAsError = (\<lambda>e. e),
      require_resolve = (\<lambda>script. Inr script),
      decode64_CoreExecutionResult = (\<lambda>r. Inr r),
      decode64_CompiledGraph = (\<lambda>r. Inr r)\<rparr>"

definition exampleRequest :: ICompileConfig where
  "exampleRequest =
     \<lparr>projectDir = Some ''/project'', schemaSuffixOverride = None,
      projectConfigOverride = None, timeoutMillis = Some 50, useMain = False\<rparr>"

section \<open>The outcome of a call as the specification words it\<close>

text \<open>
  Following the specification (``whichever of response, error, exit with a
  non-zero code, timeout occurs first is authoritative; the others are
  disregarded''): what one signal of the worker decides by itself, and the
  outcome decided by the first deciding event, the deadline being one of them.
  \<open>due\<close> is the time at which the deadline elapses.
\<close>

fun spec_signalOutcome :: "(js_error \<Rightarrow> js_error) \<Rightarrow> signal \<Rightarrow> string outcome option" where
  "spec_signalOutcome c (ErrorEvent e) = Some (Throws (c e))"
| "spec_signalOutcome c (MessageEvent (StringMessage m)) = Some (Returns m)"
| "spec_signalOutcome c (MessageEvent (ErrorMessage e)) = Some (Throws (c e))"
| "spec_signalOutcome c (CloseEvent exitCode) =
     (if exitCode = Some 0 then None
      else Some (Throws (Error (''Compilation child process exited with exit code ''
                                @ stringOfExitCode exitCode @ ''.''))))"

fun spec_firstOutcome ::
  "(js_error \<Rightarrow> js_error) \<Rightarrow> int \<Rightarrow> (nat \<times> signal) list \<Rightarrow> string outcome" where
  "spec_firstOutcome c due [] = Throws (CompilationTimeoutError ''Compilation timed out'')"
| "spec_firstOutcome c due ((t, sg) # rest) =
     (if due \<le> int t then Throws (CompilationTimeoutError ''Compilation timed out'')
      else case spec_signalOutcome c sg of
             Some out \<Rightarrow> out
           | None \<Rightarrow> spec_firstOutcome c due rest)"

text \<open>The state of a call that is still waiting: nothing is settled, the timer is armed.\<close>

definition waiting :: "call_state \<Rightarrow> bool" where
  "waiting s \<longleftrightarrow> timer s = Some Armed \<and> timeout s = Pending \<and> raced s = Pending
                 \<and> compileInChildProcess s = Pending"

section \<open>Properties of the configuration check\<close>

lemma invalidWarehouseProp_Some:
  "cfg ''warehouse'' = Some w \<Longrightarrow> w \<noteq> [] \<Longrightarrow> w \<notin> set vw \<Longrightarrow>
   invalidWarehouseProp vw cfg =
     Some (''Invalid value on property warehouse: '' @ w @ ''. Should be one of: ''
           @ join '', '' vw @ ''.'')"
  by (simp add: invalidWarehouseProp_def)

lemma invalidWarehouseProp_None:
  "(\<forall>w. cfg ''warehouse'' = Some w \<longrightarrow> w = [] \<or> w \<in> set vw) \<Longrightarrow> invalidWarehouseProp vw cfg = None"
  by (auto simp: invalidWarehouseProp_def split: option.splits)

lemma check_warehouse:
  "invalidWarehouseProp vw cfg = Some m \<Longrightarrow> checkDataformJsonValidity vw cfg = Inl (Error m)"
  by (auto simp: checkDataformJsonValidity_def orElse_def invalidWarehouseProp_def split: option.splits if_splits)

lemma invalidProp_Some:
  assumes "i < length simpleCheckProps" and "cfg (simpleCheckProps ! i) = Some v" and "\<not> simplePattern v"
    and "\<forall>j<i. \<forall>u. cfg (simpleCheckProps ! j) = Some u \<longrightarrow> simplePattern u"
  shows "invalidProp cfg =
     Some (''Invalid value on property '' @ simpleCheckProps ! i @ '': '' @ v
           @ ''. Should only contain alphanumeric characters, underscores and/or hyphens.'')"
proof -
  let ?P = "\<lambda>prop. case cfg prop of None \<Rightarrow> False | Some v \<Rightarrow> \<not> simplePattern v"
  have "find ?P simpleCheckProps = Some (simpleCheckProps ! i)"
    unfolding find_Some_iff
    using assms by (intro exI[of _ i]) (auto split: option.splits)
  then show ?thesis using assms(2) by (simp add: invalidProp_def)
qed

lemma invalidProp_None:
  "(\<forall>p\<in>set simpleCheckProps. \<forall>v. cfg p = Some v \<longrightarrow> simplePattern v) \<Longrightarrow> invalidProp cfg = None"
proof -
  assume a: "\<forall>p\<in>set simpleCheckProps. \<forall>v. cfg p = Some v \<longrightarrow> simplePattern v"
  let ?P = "\<lambda>prop. case cfg prop of None \<Rightarrow> False | Some v \<Rightarrow> \<not> simplePattern v"
  have "find ?P simpleCheckProps = None"
    unfolding find_None_iff using a by (auto split: option.splits)
  then show ?thesis by (simp add: invalidProp_def)
qed

lemma check_simple:
  "invalidWarehouseProp vw cfg = None \<Longrightarrow> invalidProp cfg = Some m \<Longrightarrow> m \<noteq> [] \<Longrightarrow>
   checkDataformJsonValidity vw cfg = Inl (Error m)"
  by (simp add: checkDataformJsonValidity_def orElse_def)

lemma check_mandatory:
  "invalidWarehouseProp vw cfg = None \<Longrightarrow> invalidProp cfg = None \<Longrightarrow>
   checkDataformJsonValidity vw cfg =
     (if cfg ''warehouse'' = None then Inl (Error ''Missing mandatory property: warehouse.'')
      else if cfg ''defaultSchema'' = None then Inl (Error ''Missing mandatory property: defaultSchema.'')
      else Inr ())"
  by (simp add: checkDataformJsonValidity_def orElse_def missingMandatoryProp_def mandatoryProps_def)


text \<open>
  C6 as stated fails: in the config with an empty warehouse and the table
  prefix \<open>a b\<close>, the warehouse value is outside the allow-list and the table
  prefix does not match the pattern, so two rules are violated; the error is
  the one of the pattern rule, the second in the order, and not the one of the
  warehouse rule.
\<close>

theorem empty_warehouse_yields_to_pattern_rule:
  "[''warehouse'' \<mapsto> '''', ''tablePrefix'' \<mapsto> ''a b''] ''warehouse'' = Some ''''
   \<and> '''' \<notin> set [''bigquery'', ''postgres'']
   \<and> [''warehouse'' \<mapsto> '''', ''tablePrefix'' \<mapsto> ''a b''] ''tablePrefix'' = Some ''a b''
   \<and> \<not> simplePattern ''a b''
   \<and> checkDataformJsonValidity [''bigquery'', ''postgres'']
        [''warehouse'' \<mapsto> '''', ''tablePrefix'' \<mapsto> ''a b'']
       = Inl (Error ''Invalid value on property tablePrefix: a b. Should only contain alphanumeric characters, underscores and/or hyphens.'')"
  by (simp add: checkDataformJsonValidity_def orElse_def invalidWarehouseProp_def invalidProp_def
      simpleCheckProps_def simplePattern_def simpleChar_def)

text \<open>
  C6, amended. The rules are checked in the order warehouse allow-list,
  simple-pattern properties, mandatory properties, the warehouse rule being
  violated only by a value that is not empty and is outside the allow-list,
  and the first violated rule gives the message of the error: such a
  warehouse gives the warehouse message whatever else is wrong; with the
  warehouse rule satisfied, the first property of \<open>simpleCheckProps\<close> whose
  value does not match the pattern gives the message; with both rules
  satisfied, the first mandatory property that is missing is named, and a
  config that misses none is accepted.
\<close>

theorem validation_precedence:
  "(\<forall>w. cfg ''warehouse'' = Some w \<and> w \<noteq> [] \<and> w \<notin> set vw \<longrightarrow>
      checkDataformJsonValidity vw cfg =
        Inl (Error (''Invalid value on property warehouse: '' @ w @ ''. Should be one of: ''
                    @ join '', '' vw @ ''.'')))
   \<and> ((\<forall>w. cfg ''warehouse'' = Some w \<longrightarrow> w = [] \<or> w \<in> set vw) \<longrightarrow>
      (\<forall>i v. i < length simpleCheckProps \<and> cfg (simpleCheckProps ! i) = Some v \<and> \<not> simplePattern v
             \<and> (\<forall>j<i. \<forall>u. cfg (simpleCheckProps ! j) = Some u \<longrightarrow> simplePattern u) \<longrightarrow>
         checkDataformJsonValidity vw cfg =
           Inl (Error (''Invalid value on property '' @ simpleCheckProps ! i @ '': '' @ v
                @ ''. Should only contain alphanumeric characters, underscores and/or hyphens.'')))
      \<and> ((\<forall>p\<in>set simpleCheckProps. \<forall>v. cfg p = Some v \<longrightarrow> simplePattern v) \<longrightarrow>
           (cfg ''warehouse'' = None \<longrightarrow>
              checkDataformJsonValidity vw cfg = Inl (Error ''Missing mandatory property: warehouse.''))
         \<and> (cfg ''warehouse'' \<noteq> None \<and> cfg ''defaultSchema'' = None \<longrightarrow>
              checkDataformJsonValidity vw cfg =
                Inl (Error ''Missing mandatory property: defaultSchema.''))
         \<and> (cfg ''warehouse'' \<noteq> None \<and> cfg ''defaultSchema'' \<noteq> None \<longrightarrow>
              checkDataformJsonValidity vw cfg = Inr ())))"
proof (intro conjI allI impI)
  fix w
  assume "cfg ''warehouse'' = Some w \<and> w \<noteq> [] \<and> w \<notin> set vw"
  then show "checkDataformJsonValidity vw cfg =
        Inl (Error (''Invalid value on property warehouse: '' @ w @ ''. Should be one of: ''
                    @ join '', '' vw @ ''.''))"
    by (simp add: check_warehouse invalidWarehouseProp_Some)
next
  fix i v
  assume wh: "\<forall>w. cfg ''warehouse'' = Some w \<longrightarrow> w = [] \<or> w \<in> set vw"
    and sp: "i < length simpleCheckProps \<and> cfg (simpleCheckProps ! i) = Some v \<and> \<not> simplePattern v
             \<and> (\<forall>j<i. \<forall>u. cfg (simpleCheckProps ! j) = Some u \<longrightarrow> simplePattern u)"
  from sp have "invalidProp cfg =
     Some (''Invalid value on property '' @ simpleCheckProps ! i @ '': '' @ v
           @ ''. Should only contain alphanumeric characters, underscores and/or hyphens.'')"
    by (intro invalidProp_Some) simp_all
  with invalidWarehouseProp_None [of cfg vw, OF wh]
  show "checkDataformJsonValidity vw cfg =
           Inl (Error (''Invalid value on property '' @ simpleCheckProps ! i @ '': '' @ v
                @ ''. Should only contain alphanumeric characters, underscores and/or hyphens.''))"
    by (intro check_simple) simp_all
next
  assume wh: "\<forall>w. cfg ''warehouse'' = Some w \<longrightarrow> w = [] \<or> w \<in> set vw"
    and sp: "\<forall>p\<in>set simpleCheckProps. \<forall>v. cfg p = Some v \<longrightarrow> simplePattern v"
    and "cfg ''warehouse'' = None"
  with check_mandatory [of vw cfg, OF invalidWarehouseProp_None [of cfg vw, OF wh] invalidProp_None [of cfg, OF sp]]
  show "checkDataformJsonValidity vw cfg = Inl (Error ''Missing mandatory property: warehouse.'')"
    by simp
next
  assume wh: "\<forall>w. cfg ''warehouse'' = Some w \<longrightarrow> w = [] \<or> w \<in> set vw"
    and sp: "\<forall>p\<in>set simpleCheckProps. \<forall>v. cfg p = Some v \<longrightarrow> simplePattern v"
    and "cfg ''warehouse'' \<noteq> None \<and> cfg ''defaultSchema'' = None"
  with check_mandatory [of vw cfg, OF invalidWarehouseProp_None [of cfg vw, OF wh] invalidProp_None [of cfg, OF sp]]
  show "checkDataformJsonValidity vw cfg = Inl (Error ''Missing mandatory property: defaultSchema.'')"
    by simp
next
  assume wh: "\<forall>w. cfg ''warehouse'' = Some w \<longrightarrow> w = [] \<or> w \<in> set vw"
    and sp: "\<forall>p\<in>set simpleCheckProps. \<forall>v. cfg p = Some v \<longrightarrow> simplePattern v"
    and "cfg ''warehouse'' \<noteq> None \<and> cfg ''defaultSchema'' \<noteq> None"
  with check_mandatory [of vw cfg, OF invalidWarehouseProp_None [of cfg vw, OF wh] invalidProp_None [of cfg, OF sp]]
  show "checkDataformJsonValidity vw cfg = Inr ()"
    by simp
qed

lemma simplePattern_ex1: "\<not> simplePattern ''a b''"
  by (simp add: simplePattern_def simpleChar_def)

text \<open>
  C6, amended, at three configs: one that violates all three rules, one that violates
  the last two, one that violates the last.
\<close>

theorem validation_precedence_witness:
  "checkDataformJsonValidity [''bigquery'', ''postgres'']
      [''warehouse'' \<mapsto> ''oracle'', ''tablePrefix'' \<mapsto> ''a b'']
     = Inl (Error ''Invalid value on property warehouse: oracle. Should be one of: bigquery, postgres.'')
   \<and> checkDataformJsonValidity [''bigquery'', ''postgres'']
      [''warehouse'' \<mapsto> ''bigquery'', ''tablePrefix'' \<mapsto> ''a b'']
     = Inl (Error ''Invalid value on property tablePrefix: a b. Should only contain alphanumeric characters, underscores and/or hyphens.'')
   \<and> checkDataformJsonValidity [''bigquery'', ''postgres''] [''warehouse'' \<mapsto> ''bigquery'']
     = Inl (Error ''Missing mandatory property: defaultSchema.'')"
proof (intro conjI)
  let ?vw = "[''bigquery'', ''postgres'']"
  let ?c1 = "[''warehouse'' \<mapsto> ''oracle'', ''tablePrefix'' \<mapsto> ''a b'']"
  let ?c2 = "[''warehouse'' \<mapsto> ''bigquery'', ''tablePrefix'' \<mapsto> ''a b'']"
  let ?c3 = "[''warehouse'' \<mapsto> ''bigquery'']"
  have "?c1 ''warehouse'' = Some ''oracle'' \<and> ''oracle'' \<noteq> [] \<and> ''oracle'' \<notin> set ?vw"
    by simp
  with validation_precedence [of ?c1 ?vw]
  show "checkDataformJsonValidity ?vw ?c1
     = Inl (Error ''Invalid value on property warehouse: oracle. Should be one of: bigquery, postgres.'')"
    by simp
  have w2: "\<forall>w. ?c2 ''warehouse'' = Some w \<longrightarrow> w = [] \<or> w \<in> set ?vw"
    by simp
  have "(3::nat) < length simpleCheckProps \<and> ?c2 (simpleCheckProps ! 3) = Some ''a b''
        \<and> \<not> simplePattern ''a b''
        \<and> (\<forall>j<3. \<forall>u. ?c2 (simpleCheckProps ! j) = Some u \<longrightarrow> simplePattern u)"
    by (simp add: simpleCheckProps_def simplePattern_ex1 nth_Cons' less_Suc_eq numeral_3_eq_3)
  with validation_precedence [of ?c2 ?vw] w2
  have "checkDataformJsonValidity ?vw ?c2 =
           Inl (Error (''Invalid value on property '' @ simpleCheckProps ! 3 @ '': '' @ ''a b''
                @ ''. Should only contain alphanumeric characters, underscores and/or hyphens.''))"
    by blast
  then show "checkDataformJsonValidity ?vw ?c2
     = Inl (Error ''Invalid value on property tablePrefix: a b. Should only contain alphanumeric characters, underscores and/or hyphens.'')"
    by (simp add: simpleCheckProps_def)
  have w3: "\<forall>w. ?c3 ''warehouse'' = Some w \<longrightarrow> w = [] \<or> w \<in> set ?vw"
    by simp
  have s3: "\<forall>p\<in>set simpleCheckProps. \<forall>v. ?c3 p = Some v \<longrightarrow> simplePattern v"
    by (simp add: simpleCheckProps_def)
  have "?c3 ''warehouse'' \<noteq> None \<and> ?c3 ''defaultSchema'' = None"
    by simp
  with validation_precedence [of ?c3 ?vw] w3 s3
  show "checkDataformJsonValidity ?vw ?c3 = Inl (Error ''Missing mandatory property: defaultSchema.'')"
    by blast
qed

text \<open>
  C7 as stated fails: the empty string is a warehouse value outside the
  allow-list, and a config with it is accepted.
\<close>

theorem empty_warehouse_outside_allow_list_passes:
  "[''warehouse'' \<mapsto> '''', ''defaultSchema'' \<mapsto> ''analytics''] ''warehouse'' = Some ''''
   \<and> '''' \<notin> set [''bigquery'', ''postgres'']
   \<and> checkDataformJsonValidity [''bigquery'', ''postgres'']
        [''warehouse'' \<mapsto> '''', ''defaultSchema'' \<mapsto> ''analytics''] = Inr ()"
  by (simp add: checkDataformJsonValidity_def orElse_def invalidWarehouseProp_def invalidProp_def
      missingMandatoryProp_def simpleCheckProps_def mandatoryProps_def simplePattern_def
      simpleChar_def)

text \<open>
  C7, amended. For every config whose warehouse value is not empty and is
  outside the allow-list, the check throws the error whose message names the
  value and lists the allow-list; for every config without a warehouse
  property the warehouse check returns \<open>null\<close>.
\<close>

theorem warehouse_allow_list:
  "(cfg ''warehouse'' = Some w \<and> w \<noteq> [] \<and> w \<notin> set vw \<longrightarrow>
      checkDataformJsonValidity vw cfg =
        Inl (Error (''Invalid value on property warehouse: '' @ w @ ''. Should be one of: ''
                    @ join '', '' vw @ ''.'')))
   \<and> (cfg ''warehouse'' = None \<longrightarrow> invalidWarehouseProp vw cfg = None)"
proof (intro conjI impI)
  assume "cfg ''warehouse'' = Some w \<and> w \<noteq> [] \<and> w \<notin> set vw"
  then show "checkDataformJsonValidity vw cfg =
        Inl (Error (''Invalid value on property warehouse: '' @ w @ ''. Should be one of: ''
                    @ join '', '' vw @ ''.''))"
    by (simp add: check_warehouse invalidWarehouseProp_Some)
next
  assume "cfg ''warehouse'' = None"
  then show "invalidWarehouseProp vw cfg = None"
    by (simp add: invalidWarehouseProp_def)
qed

text \<open>
  C7, amended, at a config with warehouse \<open>oracle\<close> and at a config without
  warehouse.
\<close>

theorem warehouse_allow_list_witness:
  "checkDataformJsonValidity [''bigquery'', ''postgres'']
      [''warehouse'' \<mapsto> ''oracle'', ''defaultSchema'' \<mapsto> ''analytics'']
     = Inl (Error ''Invalid value on property warehouse: oracle. Should be one of: bigquery, postgres.'')
   \<and> invalidWarehouseProp [''bigquery'', ''postgres''] [''defaultSchema'' \<mapsto> ''analytics''] = None"
proof
  let ?vw = "[''bigquery'', ''postgres'']"
  let ?c1 = "[''warehouse'' \<mapsto> ''oracle'', ''defaultSchema'' \<mapsto> ''analytics'']"
  let ?c2 = "[''defaultSchema'' \<mapsto> ''analytics'']"
  have "?c1 ''warehouse'' = Some ''oracle'' \<and> ''oracle'' \<noteq> [] \<and> ''oracle'' \<notin> set ?vw"
    by simp
  with warehouse_allow_list [of ?c1 "''oracle''" ?vw]
  show "checkDataformJsonValidity ?vw ?c1
     = Inl (Error ''Invalid value on property warehouse: oracle. Should be one of: bigquery, postgres.'')"
    by simp
  have "?c2 ''warehouse'' = None"
    by simp
  with warehouse_allow_list [of ?c2 _ ?vw]
  show "invalidWarehouseProp ?vw ?c2 = None"
    by blast
qed

text \<open>
  C9 as stated fails: a config whose only property is an empty warehouse is
  rejected, for its missing \<open>defaultSchema\<close>.
\<close>

theorem empty_warehouse_alone_fails:
  "[''warehouse'' \<mapsto> ''''] ''warehouse'' = Some ''''
   \<and> checkDataformJsonValidity [''bigquery'', ''postgres''] [''warehouse'' \<mapsto> '''']
       = Inl (Error ''Missing mandatory property: defaultSchema.'')"
  by (simp add: checkDataformJsonValidity_def orElse_def invalidWarehouseProp_def invalidProp_def
      missingMandatoryProp_def simpleCheckProps_def mandatoryProps_def)

text \<open>
  C9, amended. For every config whose warehouse is the empty string, the
  allow-list check returns \<open>null\<close> and the mandatory-property check does not
  report warehouse; the config is accepted when \<open>defaultSchema\<close> is present and
  every simple-pattern property that is present matches the pattern.
\<close>

theorem empty_warehouse_accepted:
  assumes "cfg ''warehouse'' = Some []"
  shows "invalidWarehouseProp vw cfg = None
    \<and> missingMandatoryProp cfg \<noteq> Some ''Missing mandatory property: warehouse.''
    \<and> (cfg ''defaultSchema'' \<noteq> None
         \<and> (\<forall>p\<in>set simpleCheckProps. \<forall>v. cfg p = Some v \<longrightarrow> simplePattern v)
        \<longrightarrow> checkDataformJsonValidity vw cfg = Inr ())"
proof (intro conjI impI)
  show iw: "invalidWarehouseProp vw cfg = None"
    using assms by (simp add: invalidWarehouseProp_def)
  show "missingMandatoryProp cfg \<noteq> Some ''Missing mandatory property: warehouse.''"
    using assms by (simp add: missingMandatoryProp_def mandatoryProps_def)
  assume a: "cfg ''defaultSchema'' \<noteq> None
         \<and> (\<forall>p\<in>set simpleCheckProps. \<forall>v. cfg p = Some v \<longrightarrow> simplePattern v)"
  then have "invalidProp cfg = None"
    by (intro invalidProp_None) simp
  with check_mandatory [of vw cfg, OF iw] assms a
  show "checkDataformJsonValidity vw cfg = Inr ()"
    by simp
qed

text \<open>
  C9, amended, at the config with an empty warehouse and \<open>defaultSchema\<close>
  \<open>analytics\<close>.
\<close>

theorem empty_warehouse_accepted_witness:
  "invalidWarehouseProp [''bigquery'', ''postgres'']
      [''warehouse'' \<mapsto> '''', ''defaultSchema'' \<mapsto> ''analytics''] = None
   \<and> checkDataformJsonValidity [''bigquery'', ''postgres'']
      [''warehouse'' \<mapsto> '''', ''defaultSchema'' \<mapsto> ''analytics''] = Inr ()"
proof -
  let ?vw = "[''bigquery'', ''postgres'']"
  let ?c = "[''warehouse'' \<mapsto> '''', ''defaultSchema'' \<mapsto> ''analytics'']"
  have h: "?c ''warehouse'' = Some []"
    by simp
  have "?c ''defaultSchema'' \<noteq> None
         \<and> (\<forall>p\<in>set simpleCheckProps. \<forall>v. ?c p = Some v \<longrightarrow> simplePattern v)"
    by (simp add: simpleCheckProps_def simplePattern_def simpleChar_def)
  with empty_warehouse_accepted [of ?c ?vw, OF h]
  show ?thesis
    by blast
qed

section \<open>Properties of the worker protocol\<close>

lemmas step_defs = onError_def onMessage_def onClose_def onTimeout_def settleRace_def
  timerFires_def resolve_def reject_def

lemma deliver_killed: "killed (childProcess (deliver c sg s)) = killed (childProcess s)"
  by (cases sg) (auto simp: step_defs split: ipc_message.splits)

lemma deliver_timer: "timer (deliver c sg s) = timer s"
  by (cases sg) (auto simp: step_defs split: ipc_message.splits)

lemma timerFires_killed: "killed (childProcess (timerFires s)) = killed (childProcess s)"
  by (simp add: step_defs)

lemma timerFires_timer: "timer s \<noteq> None \<Longrightarrow> timer (timerFires s) \<noteq> None"
  by (simp add: step_defs)

lemma awaitRace_killed: "killed (childProcess (awaitRace c d sgs s)) = killed (childProcess s)"
  by (induction c d sgs s rule: awaitRace.induct)
     (simp_all add: timerFires_killed deliver_killed Let_def)

lemma awaitRace_timer: "timer s \<noteq> None \<Longrightarrow> timer (awaitRace c d sgs s) \<noteq> None"
  by (induction c d sgs s rule: awaitRace.induct)
     (auto simp: deliver_timer Let_def step_defs)

lemma timerFires_waiting:
  "waiting s \<Longrightarrow> raced (timerFires s) = Rejected (CompilationTimeoutError ''Compilation timed out'')"
  by (simp add: waiting_def step_defs)

lemma deliver_waiting:
  "waiting s \<Longrightarrow>
     (case spec_signalOutcome c sg of
        None \<Rightarrow> waiting (deliver c sg s)
      | Some out \<Rightarrow> awaitPromise (raced (deliver c sg s)) = out
                    \<and> compileInChildProcess (deliver c sg s) = raced (deliver c sg s))"
  by (cases "(c, sg)" rule: spec_signalOutcome.cases)
     (auto simp: waiting_def step_defs awaitPromise_def)

lemma awaitRace_waiting:
  "waiting s \<Longrightarrow>
     awaitPromise (raced (awaitRace c d sgs s)) = spec_firstOutcome c (setTimeoutDelay d) sgs
     \<and> (\<forall>v. raced (awaitRace c d sgs s) = Fulfilled v \<longrightarrow>
              compileInChildProcess (awaitRace c d sgs s) = Fulfilled v)"
proof (induction c d sgs s rule: awaitRace.induct)
  case (1 c d s)
  then show ?case by (simp add: timerFires_waiting awaitPromise_def)
next
  case (2 c d t sg rest s)
  show ?case
  proof (cases "setTimeoutDelay d \<le> int t")
    case True
    with "2.prems" show ?thesis
      by (simp add: timerFires_waiting awaitPromise_def waiting_def)
  next
    case False
    note late = this
    show ?thesis
    proof (cases "spec_signalOutcome c sg")
      case None
      with deliver_waiting [OF "2.prems", of c sg] have w: "waiting (deliver c sg s)"
        by simp
      then have p: "raced (deliver c sg s) = Pending"
        by (simp add: waiting_def)
      from "2.IH" [OF _ refl p w] late None p show ?thesis
        by (simp add: Let_def)
    next
      case (Some out)
      with deliver_waiting [OF "2.prems", of c sg]
      have o: "awaitPromise (raced (deliver c sg s)) = out"
        and e: "compileInChildProcess (deliver c sg s) = raced (deliver c sg s)"
        by simp_all
      from o Some have np: "raced (deliver c sg s) \<noteq> Pending"
        by (cases "(c, sg)" rule: spec_signalOutcome.cases)
           (auto simp: awaitPromise_def split: if_splits)
      with late Some o e show ?thesis
        by (simp add: Let_def)
    qed
  qed
qed

lemma spec_signalOutcome_not_Hangs: "spec_signalOutcome c sg \<noteq> Some Hangs"
  by (cases "(c, sg)" rule: spec_signalOutcome.cases) auto

lemma spec_firstOutcome_not_Hangs: "spec_firstOutcome c d sgs \<noteq> Hangs"
  by (induction c d sgs rule: spec_firstOutcome.induct)
     (auto split: option.splits simp: spec_signalOutcome_not_Hangs)

lemma initial_waiting:
  "waiting \<lparr>childProcess = cp, compileInChildProcess = Pending, timeout = Pending,
            raced = Pending, timer = Some Armed\<rparr>"
  by (simp add: waiting_def)

lemma compile_outcome:
  "fst (CompileChildProcess_compile c cp cfg sgs) = spec_firstOutcome c (setTimeoutDelay (timerDelay cfg)) sgs"
proof -
  let ?s0 = "\<lparr>childProcess = cp, compileInChildProcess = Pending, timeout = Pending,
              raced = Pending, timer = Some Armed\<rparr>"
  let ?s1 = "awaitRace c (timerDelay cfg) sgs ?s0"
  from awaitRace_waiting [OF initial_waiting, of c "timerDelay cfg" sgs cp]
  have a: "awaitPromise (raced ?s1) = spec_firstOutcome c (setTimeoutDelay (timerDelay cfg)) sgs"
    and b: "\<forall>v. raced ?s1 = Fulfilled v \<longrightarrow> compileInChildProcess ?s1 = Fulfilled v"
    by simp_all
  show ?thesis
  proof (cases "raced ?s1")
    case Pending
    with a spec_firstOutcome_not_Hangs [of c "setTimeoutDelay (timerDelay cfg)" sgs] show ?thesis
      by (simp add: awaitPromise_def)
  next
    case (Fulfilled v)
    then have r: "awaitPromise (raced ?s1) = Returns v"
      by (simp add: awaitPromise_def)
    from Fulfilled b have "awaitPromise (compileInChildProcess ?s1) = Returns v"
      by (simp add: awaitPromise_def)
    with r have "fst (CompileChildProcess_compile c cp cfg sgs) = Returns v"
      by (simp add: CompileChildProcess_compile_def Let_def)
    with a r show ?thesis
      by simp
  next
    case (Rejected e)
    then have r: "awaitPromise (raced ?s1) = Throws e"
      by (simp add: awaitPromise_def)
    then have "fst (CompileChildProcess_compile c cp cfg sgs) = Throws e"
      by (simp add: CompileChildProcess_compile_def Let_def)
    with a r show ?thesis
      by simp
  qed
qed

lemma compile_state:
  "snd (CompileChildProcess_compile c cp cfg sgs) =
     finallyBlock (awaitRace c (timerDelay cfg) sgs
        \<lparr>childProcess = cp, compileInChildProcess = Pending, timeout = Pending,
         raced = Pending, timer = Some Armed\<rparr>)"
proof -
  have "fst (CompileChildProcess_compile c cp cfg sgs) \<noteq> Hangs"
    by (simp add: compile_outcome spec_firstOutcome_not_Hangs)
  then show ?thesis
    by (simp add: CompileChildProcess_compile_def Let_def split: if_splits)
qed

lemma finallyBlock_cleanup:
  "\<not> killed (childProcess s) \<Longrightarrow> timer s \<noteq> None \<Longrightarrow>
     timer (finallyBlock s) = Some Cleared \<and> \<not> running (childProcess (finallyBlock s))"
  by (auto simp: finallyBlock_def kill_def Let_def)

lemma compile_cleanup:
  "\<not> killed cp \<Longrightarrow>
     timer (snd (CompileChildProcess_compile c cp cfg sgs)) = Some Cleared
     \<and> \<not> running (childProcess (snd (CompileChildProcess_compile c cp cfg sgs)))"
  unfolding compile_state
  by (rule finallyBlock_cleanup) (simp_all add: awaitRace_killed awaitRace_timer)

lemma finallyBlock_raced: "raced (finallyBlock s) = raced s"
  by (simp add: finallyBlock_def Let_def split: option.splits)

lemma deliver_settled: "raced s \<noteq> Pending \<Longrightarrow> raced (deliver c sg s) = raced s"
  by (cases sg) (auto simp: step_defs split: ipc_message.splits)

lemma deliverLate_settled: "raced s \<noteq> Pending \<Longrightarrow> raced (deliverLate c sgs s) = raced s"
  unfolding deliverLate_def
  by (induction sgs arbitrary: s) (simp_all add: deliver_settled)

lemma compile_raced_settled:
  "raced (snd (CompileChildProcess_compile c cp cfg sgs)) \<noteq> Pending"
proof -
  let ?s0 = "\<lparr>childProcess = cp, compileInChildProcess = Pending, timeout = Pending,
              raced = Pending, timer = Some Armed\<rparr>"
  from awaitRace_waiting [OF initial_waiting, of c "timerDelay cfg" sgs cp]
  have "awaitPromise (raced (awaitRace c (timerDelay cfg) sgs ?s0)) \<noteq> Hangs"
    by (simp add: spec_firstOutcome_not_Hangs)
  then show ?thesis
    by (auto simp: compile_state finallyBlock_raced awaitPromise_def)
qed

lemma forkProcess_fresh: "forkProcess env = Inr cp \<Longrightarrow> \<not> killed cp \<and> running cp"
  by (auto simp: forkProcess_def split: sum.splits)

lemma spec_firstOutcome_append:
  "(\<forall>(t', sg') \<in> set pre. int t' < d \<and> spec_signalOutcome c sg' = None) \<Longrightarrow>
   spec_firstOutcome c d (pre @ rest) = spec_firstOutcome c d rest"
  by (induction pre) auto

lemma compile_final_raced:
  "awaitPromise (raced (snd (CompileChildProcess_compile c cp cfg sgs))) =
     fst (CompileChildProcess_compile c cp cfg sgs)"
  using awaitRace_waiting [OF initial_waiting, of c "timerDelay cfg" sgs cp]
  by (simp add: compile_state compile_outcome finallyBlock_raced)

text \<open>
  C2. The outcome of a call is the one decided by the first deciding event, as
  the specification words it, and the call always has an outcome. The deadline
  is the time at which the timer is due: \<open>timeoutMillis || 5000\<close> milliseconds,
  which \<open>setTimeout\<close> takes as 1 ms when it is below 1 or above 2147483647.
  Spelled out: when the signals before a deciding signal decide nothing and
  all arrive before the deadline, that signal gives the outcome whatever
  signals follow it; when the deadline comes first the outcome is the timeout
  error. The race promise holds the outcome, and no signal delivered after the
  call has returned changes it.
\<close>

theorem first_settlement_wins:
  "fst (CompileChildProcess_compile c cp cfg sgs) = spec_firstOutcome c (setTimeoutDelay (timerDelay cfg)) sgs
   \<and> fst (CompileChildProcess_compile c cp cfg sgs) \<noteq> Hangs
   \<and> ((\<forall>(t', sg') \<in> set pre. int t' < setTimeoutDelay (timerDelay cfg) \<and> spec_signalOutcome c sg' = None)
        \<and> int t < setTimeoutDelay (timerDelay cfg) \<and> spec_signalOutcome c sg = Some out
      \<longrightarrow> fst (CompileChildProcess_compile c cp cfg (pre @ (t, sg) # post)) = out)
   \<and> ((\<forall>(t', sg') \<in> set pre. int t' < setTimeoutDelay (timerDelay cfg) \<and> spec_signalOutcome c sg' = None)
        \<and> setTimeoutDelay (timerDelay cfg) \<le> int t
      \<longrightarrow> fst (CompileChildProcess_compile c cp cfg (pre @ (t, sg) # post))
            = Throws (CompilationTimeoutError ''Compilation timed out''))
   \<and> awaitPromise (raced (snd (CompileChildProcess_compile c cp cfg sgs)))
       = fst (CompileChildProcess_compile c cp cfg sgs)
   \<and> raced (deliverLate c late (snd (CompileChildProcess_compile c cp cfg sgs)))
       = raced (snd (CompileChildProcess_compile c cp cfg sgs))"
proof (intro conjI impI)
  show "fst (CompileChildProcess_compile c cp cfg sgs) = spec_firstOutcome c (setTimeoutDelay (timerDelay cfg)) sgs"
    by (rule compile_outcome)
  show "fst (CompileChildProcess_compile c cp cfg sgs) \<noteq> Hangs"
    by (simp add: compile_outcome spec_firstOutcome_not_Hangs)
  show "awaitPromise (raced (snd (CompileChildProcess_compile c cp cfg sgs)))
       = fst (CompileChildProcess_compile c cp cfg sgs)"
    by (rule compile_final_raced)
  show "raced (deliverLate c late (snd (CompileChildProcess_compile c cp cfg sgs)))
       = raced (snd (CompileChildProcess_compile c cp cfg sgs))"
    by (rule deliverLate_settled) (rule compile_raced_settled)
next
  assume "(\<forall>(t', sg') \<in> set pre. int t' < setTimeoutDelay (timerDelay cfg) \<and> spec_signalOutcome c sg' = None)
        \<and> int t < setTimeoutDelay (timerDelay cfg) \<and> spec_signalOutcome c sg = Some out"
  then show "fst (CompileChildProcess_compile c cp cfg (pre @ (t, sg) # post)) = out"
    by (simp add: compile_outcome spec_firstOutcome_append)
next
  assume "(\<forall>(t', sg') \<in> set pre. int t' < setTimeoutDelay (timerDelay cfg) \<and> spec_signalOutcome c sg' = None)
        \<and> setTimeoutDelay (timerDelay cfg) \<le> int t"
  then show "fst (CompileChildProcess_compile c cp cfg (pre @ (t, sg) # post))
            = Throws (CompilationTimeoutError ''Compilation timed out'')"
    by (simp add: compile_outcome spec_firstOutcome_append)
qed

text \<open>
  C2, at a worker that exits with code 0, then responds, then exits with code 1
  and reports an error: the response is the outcome; and at a request with
  \<open>timeoutMillis\<close> 2147483648, whose timer is due after 1 ms: a response after
  100 ms comes after the timeout error.
\<close>

theorem first_settlement_wins_witness:
  "fst (CompileChildProcess_compile (\<lambda>e. e) \<lparr>killed = False, running = True\<rparr>
         \<lparr>projectDir = Some ''/p'', schemaSuffixOverride = None, projectConfigOverride = None,
          timeoutMillis = Some 50, useMain = False\<rparr>
         ([(10, CloseEvent (Some 0))] @ (20, MessageEvent (StringMessage ''graph''))
            # [(30, CloseEvent (Some 1)), (40, ErrorEvent (Error ''late''))]))
     = Returns ''graph''
   \<and> fst (CompileChildProcess_compile (\<lambda>e. e) \<lparr>killed = False, running = True\<rparr>
         \<lparr>projectDir = Some ''/p'', schemaSuffixOverride = None, projectConfigOverride = None,
          timeoutMillis = Some 2147483648, useMain = False\<rparr>
         ([] @ (100, MessageEvent (StringMessage ''graph'')) # []))
     = Throws (CompilationTimeoutError ''Compilation timed out'')"
proof
  let ?cp = "\<lparr>killed = False, running = True\<rparr>"
  let ?cfg = "\<lparr>projectDir = Some ''/p'', schemaSuffixOverride = None, projectConfigOverride = None,
          timeoutMillis = Some 50, useMain = False\<rparr>"
  have "(\<forall>(t', sg') \<in> set [(10::nat, CloseEvent (Some 0))].
            int t' < setTimeoutDelay (timerDelay ?cfg) \<and> spec_signalOutcome (\<lambda>e. e) sg' = None)
        \<and> int 20 < setTimeoutDelay (timerDelay ?cfg)
        \<and> spec_signalOutcome (\<lambda>e. e) (MessageEvent (StringMessage ''graph'')) = Some (Returns ''graph'')"
    by (simp add: timerDelay_def setTimeoutDelay_def)
  with first_settlement_wins [where c = "\<lambda>e. e" and cp = ?cp and cfg = ?cfg
      and pre = "[(10, CloseEvent (Some 0))]" and t = 20
      and sg = "MessageEvent (StringMessage ''graph'')" and out = "Returns ''graph''"
      and post = "[(30, CloseEvent (Some 1)), (40, ErrorEvent (Error ''late''))]"]
  show "fst (CompileChildProcess_compile (\<lambda>e. e) ?cp ?cfg
         ([(10, CloseEvent (Some 0))] @ (20, MessageEvent (StringMessage ''graph''))
            # [(30, CloseEvent (Some 1)), (40, ErrorEvent (Error ''late''))]))
     = Returns ''graph''"
    by blast
  let ?big = "\<lparr>projectDir = Some ''/p'', schemaSuffixOverride = None, projectConfigOverride = None,
          timeoutMillis = Some 2147483648, useMain = False\<rparr>"
  have "(\<forall>(t', sg') \<in> set ([] :: (nat \<times> signal) list).
            int t' < setTimeoutDelay (timerDelay ?big) \<and> spec_signalOutcome (\<lambda>e. e) sg' = None)
        \<and> setTimeoutDelay (timerDelay ?big) \<le> int 100"
    by (simp add: timerDelay_def setTimeoutDelay_def)
  with first_settlement_wins [where c = "\<lambda>e. e" and cp = ?cp and cfg = ?big
      and pre = "[]" and t = 100 and sg = "MessageEvent (StringMessage ''graph'')" and post = "[]"]
  show "fst (CompileChildProcess_compile (\<lambda>e. e) ?cp ?big
         ([] @ (100, MessageEvent (StringMessage ''graph'')) # []))
     = Throws (CompilationTimeoutError ''Compilation timed out'')"
    by blast
qed

section \<open>Properties of the entry point and of the deadline\<close>

lemma timerDelay_setSchemaSuffix: "timerDelay (setSchemaSuffix cfg) = timerDelay cfg"
  by (simp add: timerDelay_def setSchemaSuffix_def split: option.splits)

lemma worker_stage:
  assumes "worker (compile env cfg sgs) = Some s"
  obtains cp where "forkProcess env = Inr cp"
    and "s = snd (CompileChildProcess_compile (coerceAsError env) cp (setSchemaSuffix cfg) sgs)"
    and "outcome (compile env cfg sgs) =
           (case fst (CompileChildProcess_compile (coerceAsError env) cp (setSchemaSuffix cfg) sgs) of
              Returns r \<Rightarrow>
                (case (if useMain (setSchemaSuffix cfg)
                       then decode64_CoreExecutionResult env r
                       else decode64_CompiledGraph env r) of
                   Inl e \<Rightarrow> Throws e
                 | Inr graph \<Rightarrow> Returns graph)
            | Throws e \<Rightarrow> Throws e
            | Hangs \<Rightarrow> Hangs)"
  using assms by (auto simp: compile_def Let_def split: sum.splits prod.splits)

lemma spec_firstOutcome_late:
  "(\<forall>(t, sg) \<in> set sgs. d \<le> int t) \<Longrightarrow>
     spec_firstOutcome c d sgs = Throws (CompilationTimeoutError ''Compilation timed out'')"
  by (cases sgs) auto

text \<open>
  C1. Every call of \<open>compile\<close> that forks a worker has an outcome, and whatever
  the outcome is, the state it leaves has the timer cleared (so the timer can
  no longer fire) and the worker process not running.
\<close>

theorem cleanup_on_every_path:
  "worker (compile env cfg sgs) = Some s \<Longrightarrow>
     outcome (compile env cfg sgs) \<noteq> Hangs
     \<and> timer s = Some Cleared
     \<and> timerFires s = s
     \<and> \<not> running (childProcess s)"
proof -
  assume w: "worker (compile env cfg sgs) = Some s"
  then obtain cp where fp: "forkProcess env = Inr cp"
    and s: "s = snd (CompileChildProcess_compile (coerceAsError env) cp (setSchemaSuffix cfg) sgs)"
    and o: "outcome (compile env cfg sgs) =
             (case fst (CompileChildProcess_compile (coerceAsError env) cp (setSchemaSuffix cfg) sgs) of
                Returns r \<Rightarrow>
                  (case (if useMain (setSchemaSuffix cfg)
                         then decode64_CoreExecutionResult env r
                         else decode64_CompiledGraph env r) of
                     Inl e \<Rightarrow> Throws e
                   | Inr graph \<Rightarrow> Returns graph)
              | Throws e \<Rightarrow> Throws e
              | Hangs \<Rightarrow> Hangs)"
    by (rule worker_stage)
  from forkProcess_fresh [OF fp] have nk: "\<not> killed cp"
    by simp
  have "fst (CompileChildProcess_compile (coerceAsError env) cp (setSchemaSuffix cfg) sgs) \<noteq> Hangs"
    by (simp add: compile_outcome spec_firstOutcome_not_Hangs)
  with o have "outcome (compile env cfg sgs) \<noteq> Hangs"
    by (auto split: outcome.splits sum.splits)
  moreover from compile_cleanup [OF nk] s
  have c: "timer s = Some Cleared \<and> \<not> running (childProcess s)"
    by simp
  moreover from c have "timerFires s = s"
    by (simp add: timerFires_def)
  ultimately show ?thesis
    by simp
qed

text \<open>
  C1, at a worker that responds, one that reports an error, one that exits with
  code 1, and one that responds after the deadline.
\<close>

theorem cleanup_on_every_path_witness:
  "map_option (\<lambda>s. (timer s, running (childProcess s)))
     (worker (compile exampleEnvironment exampleRequest
        [(10, MessageEvent (StringMessage ''graph''))])) = Some (Some Cleared, False)
   \<and> map_option (\<lambda>s. (timer s, running (childProcess s)))
     (worker (compile exampleEnvironment exampleRequest
        [(10, MessageEvent (ErrorMessage (Error ''syntax error'')))])) = Some (Some Cleared, False)
   \<and> map_option (\<lambda>s. (timer s, running (childProcess s)))
     (worker (compile exampleEnvironment exampleRequest
        [(10, CloseEvent (Some 1))])) = Some (Some Cleared, False)
   \<and> map_option (\<lambda>s. (timer s, running (childProcess s)))
     (worker (compile exampleEnvironment exampleRequest
        [(10000, MessageEvent (StringMessage ''graph''))])) = Some (Some Cleared, False)"
proof -
  have reached: "worker (compile exampleEnvironment exampleRequest sgs) \<noteq> None" for sgs
    by (simp add: compile_def exampleEnvironment_def exampleRequest_def setSchemaSuffix_def
        checkProjectConfig_def checkDataformJsonValidity_def orElse_def invalidWarehouseProp_def
        invalidProp_def missingMandatoryProp_def simpleCheckProps_def mandatoryProps_def
        simplePattern_def simpleChar_def forkProcess_def findForkScript_def Let_def
        split: prod.splits)
  have "map_option (\<lambda>s. (timer s, running (childProcess s)))
     (worker (compile exampleEnvironment exampleRequest sgs)) = Some (Some Cleared, False)" for sgs
  proof -
    from reached [of sgs] obtain s
      where s: "worker (compile exampleEnvironment exampleRequest sgs) = Some s"
      by blast
    from cleanup_on_every_path [OF s] s show ?thesis
      by simp
  qed
  then show ?thesis
    by simp
qed

text \<open>
  C3 as stated fails: with \<open>timeoutMillis\<close> 0 a worker whose only signal arrives
  after 100 ms emits no signal within the configured 0 ms, and the call
  returns its response.
\<close>

theorem zero_timeout_waits_for_the_response:
  "timeoutMillis (exampleRequest\<lparr>timeoutMillis := Some 0\<rparr>) = Some 0
   \<and> (0::int) < int 100
   \<and> outcome (compile exampleEnvironment (exampleRequest\<lparr>timeoutMillis := Some 0\<rparr>)
         [(100, MessageEvent (StringMessage ''graph''))]) = Returns ''graph''"
  by (simp add: compile_def exampleEnvironment_def exampleRequest_def setSchemaSuffix_def
      checkProjectConfig_def checkDataformJsonValidity_def orElse_def invalidWarehouseProp_def
      invalidProp_def missingMandatoryProp_def simpleCheckProps_def mandatoryProps_def
      simplePattern_def simpleChar_def forkProcess_def findForkScript_def
      CompileChildProcess_compile_def timerDelay_def setTimeoutDelay_def step_defs awaitPromise_def finallyBlock_def
      kill_def Let_def)

text \<open>
  A negative \<open>timeoutMillis\<close> makes a timer of 1 ms: a response that arrives
  within the first millisecond after the call is returned.
\<close>

lemma negative_timeout_lasts_one_millisecond:
  "fst (CompileChildProcess_compile (\<lambda>e. e) \<lparr>killed = False, running = True\<rparr>
         (exampleRequest\<lparr>timeoutMillis := Some (- 5)\<rparr>)
         [(0, MessageEvent (StringMessage ''graph''))]) = Returns ''graph''"
  by (simp add: CompileChildProcess_compile_def timerDelay_def setTimeoutDelay_def
      exampleRequest_def step_defs awaitPromise_def Let_def)

text \<open>
  C3, amended. Let the duration be \<open>timeoutMillis\<close>, or 5000 ms when it is
  unspecified or 0. For every call that forks a worker whose signals all
  arrive later than the duration, and none within the first millisecond after
  the call, the call throws the \<open>CompilationTimeoutError\<close>, and the worker is
  not running afterwards. The first millisecond matters for a negative
  \<open>timeoutMillis\<close> only: every other duration is at least 1 ms.
\<close>

theorem timeout_when_no_signal_in_time:
  assumes "worker (compile env cfg sgs) = Some s"
    and "d = (case timeoutMillis cfg of None \<Rightarrow> 5000 | Some ms \<Rightarrow> if ms = 0 then 5000 else ms)"
    and "\<forall>(t, sg) \<in> set sgs. d < int t \<and> 0 < t"
  shows "outcome (compile env cfg sgs) = Throws (CompilationTimeoutError ''Compilation timed out'')
    \<and> \<not> running (childProcess s)"
proof -
  from assms(1) obtain cp where fp: "forkProcess env = Inr cp"
    and s: "s = snd (CompileChildProcess_compile (coerceAsError env) cp (setSchemaSuffix cfg) sgs)"
    and o: "outcome (compile env cfg sgs) =
           (case fst (CompileChildProcess_compile (coerceAsError env) cp (setSchemaSuffix cfg) sgs) of
              Returns r \<Rightarrow>
                (case (if useMain (setSchemaSuffix cfg)
                       then decode64_CoreExecutionResult env r
                       else decode64_CompiledGraph env r) of
                   Inl e \<Rightarrow> Throws e
                 | Inr graph \<Rightarrow> Returns graph)
            | Throws e \<Rightarrow> Throws e
            | Hangs \<Rightarrow> Hangs)"
    by (rule worker_stage)
  from assms(2) have "timerDelay cfg = d"
    by (simp add: timerDelay_def)
  then have d: "timerDelay (setSchemaSuffix cfg) = d"
    by (simp add: timerDelay_setSchemaSuffix)
  from assms(3) have "\<forall>(t, sg) \<in> set sgs. setTimeoutDelay d \<le> int t"
    by (auto simp: setTimeoutDelay_def)
  then have "fst (CompileChildProcess_compile (coerceAsError env) cp (setSchemaSuffix cfg) sgs)
      = Throws (CompilationTimeoutError ''Compilation timed out'')"
    by (simp add: compile_outcome d spec_firstOutcome_late)
  with o have "outcome (compile env cfg sgs) = Throws (CompilationTimeoutError ''Compilation timed out'')"
    by simp
  moreover from forkProcess_fresh [OF fp] compile_cleanup [of cp] s
  have "\<not> running (childProcess s)"
    by simp
  ultimately show ?thesis
    by simp
qed

text \<open>
  C3, amended, at a worker that responds after 10 s to a request with a timeout
  of 50 ms, at a silent worker with the timeout unspecified, and at a worker
  that responds after 100 ms to a request with a timeout of -5 ms.
\<close>

theorem timeout_when_no_signal_in_time_witness:
  "outcome (compile exampleEnvironment exampleRequest
      [(10000, MessageEvent (StringMessage ''graph''))])
     = Throws (CompilationTimeoutError ''Compilation timed out'')
   \<and> map_option (\<lambda>s. running (childProcess s))
       (worker (compile exampleEnvironment exampleRequest
          [(10000, MessageEvent (StringMessage ''graph''))])) = Some False
   \<and> outcome (compile exampleEnvironment (exampleRequest\<lparr>timeoutMillis := None\<rparr>) [])
     = Throws (CompilationTimeoutError ''Compilation timed out'')
   \<and> outcome (compile exampleEnvironment (exampleRequest\<lparr>timeoutMillis := Some (- 5)\<rparr>)
        [(100, MessageEvent (StringMessage ''graph''))])
     = Throws (CompilationTimeoutError ''Compilation timed out'')"
proof -
  have reached: "worker (compile exampleEnvironment (exampleRequest\<lparr>timeoutMillis := tm\<rparr>) sgs) \<noteq> None"
    for sgs tm
    by (simp add: compile_def exampleEnvironment_def exampleRequest_def setSchemaSuffix_def
        checkProjectConfig_def checkDataformJsonValidity_def orElse_def invalidWarehouseProp_def
        invalidProp_def missingMandatoryProp_def simpleCheckProps_def mandatoryProps_def
        simplePattern_def simpleChar_def forkProcess_def findForkScript_def Let_def
        split: prod.splits)
  let ?sgs = "[(10000, MessageEvent (StringMessage ''graph''))]"
  from reached [of "Some 50" ?sgs] obtain s1
    where s1: "worker (compile exampleEnvironment exampleRequest ?sgs) = Some s1"
    by (auto simp: exampleRequest_def)
  have d1: "(50::int) = (case timeoutMillis exampleRequest of None \<Rightarrow> 5000
                          | Some ms \<Rightarrow> if ms = 0 then 5000 else ms)"
    by (simp add: exampleRequest_def)
  have l1: "\<forall>(t, sg) \<in> set ?sgs. (50::int) < int t \<and> 0 < t"
    by simp
  from reached [of None "[]"] obtain s2
    where s2: "worker (compile exampleEnvironment (exampleRequest\<lparr>timeoutMillis := None\<rparr>) []) = Some s2"
    by auto
  have d2: "(5000::int) = (case timeoutMillis (exampleRequest\<lparr>timeoutMillis := None\<rparr>) of None \<Rightarrow> 5000
                          | Some ms \<Rightarrow> if ms = 0 then 5000 else ms)"
    by simp
  have l2: "\<forall>(t, sg) \<in> set ([] :: (nat \<times> signal) list). (5000::int) < int t \<and> 0 < t"
    by simp
  let ?late = "[(100, MessageEvent (StringMessage ''graph''))]"
  from reached [of "Some (- 5)" ?late] obtain s3
    where s3: "worker (compile exampleEnvironment (exampleRequest\<lparr>timeoutMillis := Some (- 5)\<rparr>) ?late)
                 = Some s3"
    by auto
  have d3: "(- 5::int) = (case timeoutMillis (exampleRequest\<lparr>timeoutMillis := Some (- 5)\<rparr>) of
                            None \<Rightarrow> 5000
                          | Some ms \<Rightarrow> if ms = 0 then 5000 else ms)"
    by simp
  have l3: "\<forall>(t, sg) \<in> set ?late. (- 5::int) < int t \<and> 0 < t"
    by simp
  from timeout_when_no_signal_in_time [OF s1 d1 l1] timeout_when_no_signal_in_time [OF s2 d2 l2]
    timeout_when_no_signal_in_time [OF s3 d3 l3] s1
  show ?thesis
    by simp
qed

lemma spec_firstOutcome_skip_exit_zero:
  "int t < d \<Longrightarrow>
     spec_firstOutcome c d (pre @ (t, CloseEvent (Some 0)) # post) = spec_firstOutcome c d (pre @ post)"
  by (induction pre) (auto split: option.splits)

lemma spec_firstOutcome_after_exit_zero:
  "(\<forall>(t', sg') \<in> set pre. int t' < d \<and> sg' = CloseEvent (Some 0)) \<Longrightarrow>
     spec_firstOutcome c d (pre @ rest) = spec_firstOutcome c d rest"
  by (rule spec_firstOutcome_append) auto

lemma spec_firstOutcome_only_exit_zero:
  "(\<forall>(t', sg') \<in> set sgs. sg' = CloseEvent (Some 0)) \<Longrightarrow>
     spec_firstOutcome c d sgs = Throws (CompilationTimeoutError ''Compilation timed out'')"
  by (induction sgs) auto

text \<open>
  C4. The \<open>close\<close> listener leaves the promise as it is for exit code 0, and
  an exit with code 0 before the deadline can be removed from the signals
  without changing the outcome of the call; a worker whose only signals are
  exits with code 0 lets the call run into the timeout. An exit with another
  code (or with none, after a signal) before the deadline, preceded by nothing
  but exits with code 0, makes the call throw the error whose message names
  the exit code. The deadline is the time at which the timer is due:
  \<open>timeoutMillis || 5000\<close> milliseconds, which \<open>setTimeout\<close> takes as 1 ms when
  it is below 1 or above 2147483647.
\<close>

theorem exit_code_zero_is_not_a_failure:
  "compileInChildProcess (onClose (Some 0) s) = compileInChildProcess s
   \<and> (int t < setTimeoutDelay (timerDelay cfg) \<longrightarrow>
        fst (CompileChildProcess_compile c cp cfg (pre @ (t, CloseEvent (Some 0)) # post))
          = fst (CompileChildProcess_compile c cp cfg (pre @ post)))
   \<and> ((\<forall>(t', sg') \<in> set sgs. sg' = CloseEvent (Some 0)) \<longrightarrow>
        fst (CompileChildProcess_compile c cp cfg sgs)
          = Throws (CompilationTimeoutError ''Compilation timed out''))
   \<and> ((\<forall>(t', sg') \<in> set pre. int t' < setTimeoutDelay (timerDelay cfg) \<and> sg' = CloseEvent (Some 0))
        \<and> int t < setTimeoutDelay (timerDelay cfg) \<and> exitCode \<noteq> Some 0 \<longrightarrow>
        fst (CompileChildProcess_compile c cp cfg (pre @ (t, CloseEvent exitCode) # post))
          = Throws (Error (''Compilation child process exited with exit code ''
                           @ stringOfExitCode exitCode @ ''.'')))"
proof (intro conjI impI)
  show "compileInChildProcess (onClose (Some 0) s) = compileInChildProcess s"
    by (simp add: onClose_def)
next
  assume "\<forall>(t', sg') \<in> set sgs. sg' = CloseEvent (Some 0)"
  then show "fst (CompileChildProcess_compile c cp cfg sgs)
          = Throws (CompilationTimeoutError ''Compilation timed out'')"
    by (simp add: compile_outcome spec_firstOutcome_only_exit_zero)
next
  assume "int t < setTimeoutDelay (timerDelay cfg)"
  then show "fst (CompileChildProcess_compile c cp cfg (pre @ (t, CloseEvent (Some 0)) # post))
          = fst (CompileChildProcess_compile c cp cfg (pre @ post))"
    by (simp add: compile_outcome spec_firstOutcome_skip_exit_zero)
next
  assume a: "(\<forall>(t', sg') \<in> set pre. int t' < setTimeoutDelay (timerDelay cfg) \<and> sg' = CloseEvent (Some 0))
        \<and> int t < setTimeoutDelay (timerDelay cfg) \<and> exitCode \<noteq> Some 0"
  then have "spec_firstOutcome c (setTimeoutDelay (timerDelay cfg)) (pre @ (t, CloseEvent exitCode) # post)
      = spec_firstOutcome c (setTimeoutDelay (timerDelay cfg)) ((t, CloseEvent exitCode) # post)"
    by (intro spec_firstOutcome_after_exit_zero) simp
  with a show "fst (CompileChildProcess_compile c cp cfg (pre @ (t, CloseEvent exitCode) # post))
          = Throws (Error (''Compilation child process exited with exit code ''
                           @ stringOfExitCode exitCode @ ''.''))"
    by (simp add: compile_outcome)
qed

text \<open>
  C4, at a worker that exits with code 0 and then responds, and at workers
  that exit with code 1, with code 137, and with no code (ended by a signal).
\<close>

theorem exit_code_zero_is_not_a_failure_witness:
  "fst (CompileChildProcess_compile (\<lambda>e. e) \<lparr>killed = False, running = True\<rparr> exampleRequest
         ([] @ (10, CloseEvent (Some 0)) # [(20, MessageEvent (StringMessage ''graph''))]))
     = Returns ''graph''
   \<and> fst (CompileChildProcess_compile (\<lambda>e. e) \<lparr>killed = False, running = True\<rparr> exampleRequest
         ([(10, CloseEvent (Some 0))] @ (20, CloseEvent (Some 1)) # []))
     = Throws (Error ''Compilation child process exited with exit code 1.'')
   \<and> fst (CompileChildProcess_compile (\<lambda>e. e) \<lparr>killed = False, running = True\<rparr> exampleRequest
         ([(10, CloseEvent (Some 0))] @ (20, CloseEvent (Some 137)) # []))
     = Throws (Error ''Compilation child process exited with exit code 137.'')
   \<and> fst (CompileChildProcess_compile (\<lambda>e. e) \<lparr>killed = False, running = True\<rparr> exampleRequest
         ([(10, CloseEvent (Some 0))] @ (20, CloseEvent None) # []))
     = Throws (Error ''Compilation child process exited with exit code null.'')"
proof (intro conjI)
  let ?cp = "\<lparr>killed = False, running = True\<rparr>"
  have t: "int 10 < setTimeoutDelay (timerDelay exampleRequest)"
    by (simp add: timerDelay_def setTimeoutDelay_def exampleRequest_def)
  have "fst (CompileChildProcess_compile (\<lambda>e. e) ?cp exampleRequest
               ([] @ [(20, MessageEvent (StringMessage ''graph''))])) = Returns ''graph''"
    by (simp add: CompileChildProcess_compile_def timerDelay_def setTimeoutDelay_def
        exampleRequest_def step_defs awaitPromise_def Let_def)
  with exit_code_zero_is_not_a_failure [where t = 10 and cfg = exampleRequest
      and c = "\<lambda>e. e" and cp = ?cp and pre = "[]"
      and post = "[(20, MessageEvent (StringMessage ''graph''))]"] t
  show "fst (CompileChildProcess_compile (\<lambda>e. e) ?cp exampleRequest
         ([] @ (10, CloseEvent (Some 0)) # [(20, MessageEvent (StringMessage ''graph''))]))
     = Returns ''graph''"
    by simp
  have exits: "fst (CompileChildProcess_compile (\<lambda>e. e) ?cp exampleRequest
         ([(10, CloseEvent (Some 0))] @ (20, CloseEvent exitCode) # []))
     = Throws (Error (''Compilation child process exited with exit code ''
                      @ stringOfExitCode exitCode @ ''.''))"
    if "exitCode \<noteq> Some 0" for exitCode
  proof -
    from that have "(\<forall>(t', sg') \<in> set [(10::nat, CloseEvent (Some 0))].
            int t' < setTimeoutDelay (timerDelay exampleRequest) \<and> sg' = CloseEvent (Some 0))
        \<and> int 20 < setTimeoutDelay (timerDelay exampleRequest) \<and> exitCode \<noteq> Some 0"
      by (simp add: timerDelay_def setTimeoutDelay_def exampleRequest_def)
    with exit_code_zero_is_not_a_failure [where t = 20 and cfg = exampleRequest
        and c = "\<lambda>e. e" and cp = ?cp and pre = "[(10, CloseEvent (Some 0))]"
        and post = "[]" and exitCode = exitCode]
    show ?thesis
      by blast
  qed
  from exits [of "Some 1"]
  show "fst (CompileChildProcess_compile (\<lambda>e. e) ?cp exampleRequest
         ([(10, CloseEvent (Some 0))] @ (20, CloseEvent (Some 1)) # []))
     = Throws (Error ''Compilation child process exited with exit code 1.'')"
    by (simp add: stringOfExitCode_def digitsOf.simps)
  from exits [of "Some 137"]
  show "fst (CompileChildProcess_compile (\<lambda>e. e) ?cp exampleRequest
         ([(10, CloseEvent (Some 0))] @ (20, CloseEvent (Some 137)) # []))
     = Throws (Error ''Compilation child process exited with exit code 137.'')"
    by (simp add: stringOfExitCode_def digitsOf.simps)
  from exits [of None]
  show "fst (CompileChildProcess_compile (\<lambda>e. e) ?cp exampleRequest
         ([(10, CloseEvent (Some 0))] @ (20, CloseEvent None) # []))
     = Throws (Error ''Compilation child process exited with exit code null.'')"
    by (simp add: stringOfExitCode_def)
qed

text \<open>
  C10. With \<open>timeoutMillis\<close> 0 the delay of the timer is 5000 ms, the call
  behaves as with \<open>timeoutMillis\<close> unspecified, and a response that arrives
  before 5000 ms is returned.
\<close>

theorem zero_timeout_uses_default:
  assumes "timeoutMillis cfg = Some 0"
  shows "timerDelay cfg = 5000
    \<and> CompileChildProcess_compile c cp cfg sgs
        = CompileChildProcess_compile c cp (cfg\<lparr>timeoutMillis := None\<rparr>) sgs
    \<and> (int t < 5000 \<longrightarrow>
         fst (CompileChildProcess_compile c cp cfg [(t, MessageEvent (StringMessage m))]) = Returns m)"
proof (intro conjI impI)
  show d: "timerDelay cfg = 5000"
    using assms by (simp add: timerDelay_def)
  have "timerDelay (cfg\<lparr>timeoutMillis := None\<rparr>) = 5000"
    by (simp add: timerDelay_def)
  with d show "CompileChildProcess_compile c cp cfg sgs
        = CompileChildProcess_compile c cp (cfg\<lparr>timeoutMillis := None\<rparr>) sgs"
    by (simp add: CompileChildProcess_compile_def)
  assume "int t < 5000"
  with d show "fst (CompileChildProcess_compile c cp cfg [(t, MessageEvent (StringMessage m))]) = Returns m"
    by (simp add: compile_outcome setTimeoutDelay_def)
qed

text \<open>
  C10, at a response that arrives after 100 ms.
\<close>

theorem zero_timeout_uses_default_witness:
  "timerDelay (exampleRequest\<lparr>timeoutMillis := Some 0\<rparr>) = 5000
   \<and> fst (CompileChildProcess_compile (\<lambda>e. e) \<lparr>killed = False, running = True\<rparr>
            (exampleRequest\<lparr>timeoutMillis := Some 0\<rparr>)
            [(100, MessageEvent (StringMessage ''graph''))]) = Returns ''graph''"
proof -
  have h: "timeoutMillis (exampleRequest\<lparr>timeoutMillis := Some 0\<rparr>) = Some 0"
    by simp
  from zero_timeout_uses_default [OF h, of "\<lambda>e. e" "\<lparr>killed = False, running = True\<rparr>" "[]" 100 "''graph''"]
  show ?thesis
    by simp
qed

lemma setSchemaSuffix_frame:
  "projectDir (setSchemaSuffix cfg) = projectDir cfg
   \<and> schemaSuffixOverride (setSchemaSuffix cfg) = schemaSuffixOverride cfg
   \<and> timeoutMillis (setSchemaSuffix cfg) = timeoutMillis cfg
   \<and> useMain (setSchemaSuffix cfg) = useMain cfg"
  by (simp add: setSchemaSuffix_def split: option.splits)

lemma request_compile:
  "request (compile env cfg sgs) =
     (case path_resolve env (projectDir cfg) of Inl e \<Rightarrow> cfg | Inr r \<Rightarrow> setSchemaSuffix cfg)"
  by (simp add: compile_def Let_def split: sum.splits prod.splits)

lemma compile_check_fails:
  "path_resolve env (projectDir cfg) = Inr resolved \<Longrightarrow>
   checkProjectConfig env (setSchemaSuffix cfg) = Inl e \<Longrightarrow>
   outcome (compile env cfg sgs) =
     Throws (ErrorWithCause
       (''Compilation failed. ProjectConfig ('dataform.json') is invalid: '' @ message e) e)
   \<and> worker (compile env cfg sgs) = None"
  by (simp add: compile_def Let_def)

text \<open>
  C5. When \<open>path.resolve\<close> has returned and reading the project file, parsing
  it, or checking the merged configuration throws \<open>e\<close>, the call throws the
  \<open>ErrorWithCause\<close> whose cause is \<open>e\<close> and whose message ends with the message
  of \<open>e\<close>, whatever the worker would have done, and no process is forked.
\<close>

theorem config_errors_surface_before_fork:
  assumes "path_resolve env (projectDir cfg) = Inr resolved"
    and "file = (case projectDir cfg of None \<Rightarrow> ''undefined'' | Some dir \<Rightarrow> dir) @ ''/dataform.json''"
    and "override = (case projectConfigOverride (setSchemaSuffix cfg) of
                       None \<Rightarrow> Map.empty | Some ov \<Rightarrow> ov)"
    and "readFileSync env file = Inl e
       \<or> (\<exists>text. readFileSync env file = Inr text \<and> JSON_parse env text = Inl e)
       \<or> (\<exists>text projectConfig. readFileSync env file = Inr text
             \<and> JSON_parse env text = Inr projectConfig
             \<and> checkDataformJsonValidity (validWarehouses env)
                 (deepmerge env projectConfig override) = Inl e)"
  shows "outcome (compile env cfg sgs) =
           Throws (ErrorWithCause
             (''Compilation failed. ProjectConfig ('dataform.json') is invalid: '' @ message e) e)
    \<and> worker (compile env cfg sgs) = None"
proof -
  from assms(2-4) have "checkProjectConfig env (setSchemaSuffix cfg) = Inl e"
    using setSchemaSuffix_frame [of cfg]
    by (auto simp: checkProjectConfig_def)
  with assms(1) show ?thesis
    by (rule compile_check_fails)
qed

text \<open>
  C5, at a project without file, a project whose file does not parse, and an
  override with a warehouse outside the allow-list.
\<close>

theorem config_errors_surface_before_fork_witness:
  "compile exampleEnvironment (exampleRequest\<lparr>projectDir := Some ''/missing''\<rparr>)
      [(10, MessageEvent (StringMessage ''graph''))]
     = \<lparr>outcome = Throws (ErrorWithCause
          ''Compilation failed. ProjectConfig ('dataform.json') is invalid: ENOENT: no such file or directory''
          (Error ''ENOENT: no such file or directory'')),
        request = exampleRequest\<lparr>projectDir := Some ''/missing''\<rparr>, worker = None\<rparr>
   \<and> compile exampleEnvironment (exampleRequest\<lparr>projectDir := Some ''/broken''\<rparr>)
      [(10, MessageEvent (StringMessage ''graph''))]
     = \<lparr>outcome = Throws (ErrorWithCause
          ''Compilation failed. ProjectConfig ('dataform.json') is invalid: Unexpected end of JSON input''
          (Error ''Unexpected end of JSON input'')),
        request = exampleRequest\<lparr>projectDir := Some ''/broken''\<rparr>, worker = None\<rparr>
   \<and> compile exampleEnvironment
        (exampleRequest\<lparr>projectConfigOverride := Some [''warehouse'' \<mapsto> ''oracle'']\<rparr>)
      [(10, MessageEvent (StringMessage ''graph''))]
     = \<lparr>outcome = Throws (ErrorWithCause
          ''Compilation failed. ProjectConfig ('dataform.json') is invalid: Invalid value on property warehouse: oracle. Should be one of: bigquery, postgres.''
          (Error ''Invalid value on property warehouse: oracle. Should be one of: bigquery, postgres.'')),
        request = exampleRequest\<lparr>projectConfigOverride := Some [''warehouse'' \<mapsto> ''oracle'']\<rparr>,
        worker = None\<rparr>"
proof (intro conjI)
  let ?sgs = "[(10, MessageEvent (StringMessage ''graph''))]"
  let ?c1 = "exampleRequest\<lparr>projectDir := Some ''/missing''\<rparr>"
  let ?c2 = "exampleRequest\<lparr>projectDir := Some ''/broken''\<rparr>"
  let ?c3 = "exampleRequest\<lparr>projectConfigOverride := Some [''warehouse'' \<mapsto> ''oracle'']\<rparr>"
  have r: "request (compile exampleEnvironment cfg ?sgs) = cfg"
    if "schemaSuffixOverride cfg = None" "projectDir cfg \<noteq> None" for cfg
    using that by (auto simp: request_compile setSchemaSuffix_def exampleEnvironment_def split: sum.splits)
  have p1: "path_resolve exampleEnvironment (projectDir ?c1) = Inr ''/missing''"
    by (simp add: exampleEnvironment_def)
  have f1: "readFileSync exampleEnvironment ''/missing/dataform.json''
              = Inl (Error ''ENOENT: no such file or directory'')"
    by (simp add: exampleEnvironment_def)
  from config_errors_surface_before_fork [of exampleEnvironment ?c1 "''/missing''"
      "''/missing/dataform.json''" _ "Error ''ENOENT: no such file or directory''" ?sgs, OF p1 _ refl]
    f1 r [of ?c1]
  show "compile exampleEnvironment ?c1 ?sgs
     = \<lparr>outcome = Throws (ErrorWithCause
          ''Compilation failed. ProjectConfig ('dataform.json') is invalid: ENOENT: no such file or directory''
          (Error ''ENOENT: no such file or directory'')),
        request = ?c1, worker = None\<rparr>"
    by (simp add: exampleRequest_def)
  have p2: "path_resolve exampleEnvironment (projectDir ?c2) = Inr ''/broken''"
    by (simp add: exampleEnvironment_def)
  have f2: "readFileSync exampleEnvironment ''/broken/dataform.json'' = Inr ''{''
            \<and> JSON_parse exampleEnvironment ''{'' = Inl (Error ''Unexpected end of JSON input'')"
    by (simp add: exampleEnvironment_def)
  from config_errors_surface_before_fork [of exampleEnvironment ?c2 "''/broken''"
      "''/broken/dataform.json''" _ "Error ''Unexpected end of JSON input''" ?sgs, OF p2 _ refl]
    f2 r [of ?c2]
  show "compile exampleEnvironment ?c2 ?sgs
     = \<lparr>outcome = Throws (ErrorWithCause
          ''Compilation failed. ProjectConfig ('dataform.json') is invalid: Unexpected end of JSON input''
          (Error ''Unexpected end of JSON input'')),
        request = ?c2, worker = None\<rparr>"
    by (simp add: exampleRequest_def)
  have p3: "path_resolve exampleEnvironment (projectDir ?c3) = Inr ''/project''"
    by (simp add: exampleEnvironment_def exampleRequest_def)
  have f3: "readFileSync exampleEnvironment ''/project/dataform.json'' = Inr ''project file''
     \<and> JSON_parse exampleEnvironment ''project file''
         = Inr [''warehouse'' \<mapsto> ''bigquery'', ''defaultSchema'' \<mapsto> ''analytics'']
     \<and> checkDataformJsonValidity (validWarehouses exampleEnvironment)
         (deepmerge exampleEnvironment
            [''warehouse'' \<mapsto> ''bigquery'', ''defaultSchema'' \<mapsto> ''analytics'']
            (case projectConfigOverride (setSchemaSuffix ?c3) of
               None \<Rightarrow> Map.empty | Some ov \<Rightarrow> ov))
         = Inl (Error ''Invalid value on property warehouse: oracle. Should be one of: bigquery, postgres.'')"
    by (simp add: exampleEnvironment_def exampleRequest_def setSchemaSuffix_def
        checkDataformJsonValidity_def orElse_def invalidWarehouseProp_def)
  from config_errors_surface_before_fork [of exampleEnvironment ?c3 "''/project''"
      "''/project/dataform.json''" _
      "Error ''Invalid value on property warehouse: oracle. Should be one of: bigquery, postgres.''"
      ?sgs, OF p3 _ refl]
    f3 r [of ?c3]
  show "compile exampleEnvironment ?c3 ?sgs
     = \<lparr>outcome = Throws (ErrorWithCause
          ''Compilation failed. ProjectConfig ('dataform.json') is invalid: Invalid value on property warehouse: oracle. Should be one of: bigquery, postgres.''
          (Error ''Invalid value on property warehouse: oracle. Should be one of: bigquery, postgres.'')),
        request = ?c3, worker = None\<rparr>"
    by (simp add: exampleRequest_def)
qed

text \<open>
  C8 as stated fails: with \<open>schemaSuffixOverride\<close> set, the request object is not
  the same after the call.
\<close>

theorem schema_suffix_override_changes_the_request:
  "request (compile exampleEnvironment (exampleRequest\<lparr>schemaSuffixOverride := Some ''dev''\<rparr>) [])
     \<noteq> exampleRequest\<lparr>schemaSuffixOverride := Some ''dev''\<rparr>"
  by (simp add: request_compile exampleEnvironment_def exampleRequest_def setSchemaSuffix_def)

text \<open>
  C8, amended. The call changes no property of the request other than
  \<open>projectConfigOverride\<close>; it leaves the request as it is when
  \<open>schemaSuffixOverride\<close> is unset or empty, and when \<open>path.resolve\<close> throws;
  when \<open>schemaSuffixOverride\<close> is a string that is not empty and
  \<open>path.resolve\<close> returns, \<open>projectConfigOverride\<close> is the object
  \<open>{schemaSuffix: schemaSuffixOverride, ...projectConfigOverride}\<close> after the call.
\<close>

theorem request_changes_only_in_override:
  "projectDir (request (compile env cfg sgs)) = projectDir cfg
   \<and> schemaSuffixOverride (request (compile env cfg sgs)) = schemaSuffixOverride cfg
   \<and> timeoutMillis (request (compile env cfg sgs)) = timeoutMillis cfg
   \<and> useMain (request (compile env cfg sgs)) = useMain cfg
   \<and> (schemaSuffixOverride cfg = None \<or> schemaSuffixOverride cfg = Some []
        \<longrightarrow> request (compile env cfg sgs) = cfg)
   \<and> (path_resolve env (projectDir cfg) = Inl e
        \<longrightarrow> request (compile env cfg sgs) = cfg)
   \<and> (schemaSuffixOverride cfg = Some suffix \<and> suffix \<noteq> []
        \<and> path_resolve env (projectDir cfg) = Inr resolved
        \<longrightarrow> projectConfigOverride (request (compile env cfg sgs)) =
              Some ([''schemaSuffix'' \<mapsto> suffix]
                    ++ (case projectConfigOverride cfg of
                          None \<Rightarrow> Map.empty
                        | Some override \<Rightarrow> override)))"
  using setSchemaSuffix_frame [of cfg]
  by (auto simp: request_compile setSchemaSuffix_def split: sum.splits)

text \<open>
  C8, amended, at a request without \<open>schemaSuffixOverride\<close>, at one with
  \<open>schemaSuffixOverride\<close> \<open>dev\<close> and an override of \<open>tablePrefix\<close>, and at one with
  \<open>schemaSuffixOverride\<close> \<open>dev\<close> and no \<open>projectDir\<close>, for which \<open>path.resolve\<close>
  throws.
\<close>

theorem request_changes_only_in_override_witness:
  "request (compile exampleEnvironment exampleRequest [(10, MessageEvent (StringMessage ''graph''))])
     = exampleRequest
   \<and> projectConfigOverride (request (compile exampleEnvironment
        (exampleRequest\<lparr>schemaSuffixOverride := Some ''dev'',
                         projectConfigOverride := Some [''tablePrefix'' \<mapsto> ''t'']\<rparr>) []))
     = Some [''schemaSuffix'' \<mapsto> ''dev'', ''tablePrefix'' \<mapsto> ''t'']
   \<and> request (compile exampleEnvironment
        (exampleRequest\<lparr>projectDir := None, schemaSuffixOverride := Some ''dev''\<rparr>) [])
     = exampleRequest\<lparr>projectDir := None, schemaSuffixOverride := Some ''dev''\<rparr>"
proof (intro conjI)
  have "schemaSuffixOverride exampleRequest = None \<or> schemaSuffixOverride exampleRequest = Some []"
    by (simp add: exampleRequest_def)
  with request_changes_only_in_override [of exampleEnvironment exampleRequest
      "[(10, MessageEvent (StringMessage ''graph''))]"]
  show "request (compile exampleEnvironment exampleRequest
          [(10, MessageEvent (StringMessage ''graph''))]) = exampleRequest"
    by blast
  let ?cfg = "exampleRequest\<lparr>schemaSuffixOverride := Some ''dev'',
                         projectConfigOverride := Some [''tablePrefix'' \<mapsto> ''t'']\<rparr>"
  have "schemaSuffixOverride ?cfg = Some ''dev'' \<and> ''dev'' \<noteq> []
        \<and> path_resolve exampleEnvironment (projectDir ?cfg) = Inr ''/project''"
    by (simp add: exampleRequest_def exampleEnvironment_def)
  with request_changes_only_in_override [where env = exampleEnvironment and cfg = ?cfg
      and sgs = "[]" and suffix = "''dev''" and resolved = "''/project''"]
  have "projectConfigOverride (request (compile exampleEnvironment ?cfg [])) =
              Some ([''schemaSuffix'' \<mapsto> ''dev'']
                    ++ (case projectConfigOverride ?cfg of
                          None \<Rightarrow> Map.empty
                        | Some override \<Rightarrow> override))"
    by blast
  then show "projectConfigOverride (request (compile exampleEnvironment ?cfg []))
     = Some [''schemaSuffix'' \<mapsto> ''dev'', ''tablePrefix'' \<mapsto> ''t'']"
    by simp
  let ?nodir = "exampleRequest\<lparr>projectDir := None, schemaSuffixOverride := Some ''dev''\<rparr>"
  have "path_resolve exampleEnvironment (projectDir ?nodir)
          = Inl (Error ''The paths[0] argument must be of type string'')"
    by (simp add: exampleEnvironment_def)
  with request_changes_only_in_override [where env = exampleEnvironment and cfg = ?nodir
      and sgs = "[]" and e = "Error ''The paths[0] argument must be of type string''"]
  show "request (compile exampleEnvironment ?nodir []) = ?nodir"
    by blast
qed

end
